theory Spec2Isabelle
  imports Main "HOL-Library.Sublist"
begin

section \<open>Exceptions\<close>

text \<open>
  The exception classes that \<^verbatim>\<open>browser_manager.py\<close> and \<^verbatim>\<open>server.py\<close> name in their
  \<^verbatim>\<open>except\<close> clauses. \<open>TimeoutError\<close> is Python's builtin class (the only
  \<^verbatim>\<open>TimeoutError\<close> in scope in \<^verbatim>\<open>browser_manager.py\<close>); \<open>PlaywrightError\<close> and
  \<open>PlaywrightTimeoutError\<close> are \<^verbatim>\<open>playwright.async_api.Error\<close> and
  \<^verbatim>\<open>playwright.async_api.TimeoutError\<close>, as \<^verbatim>\<open>server.py\<close> imports them. Every value of
  \<open>exn\<close> is an instance of \<^verbatim>\<open>Exception\<close>; task cancellation and interpreter exit
  (\<^verbatim>\<open>BaseException\<close>) are outside the model.
\<close>

datatype exn_class =
    TimeoutError
  | PlaywrightError
  | PlaywrightTimeoutError
  | PermissionError
  | FileNotFoundError
  | FileExistsError
  | NotADirectoryError
  | TypeError
  | RuntimeError
  | OtherException

datatype exn = Exn (cls: exn_class) (str: string)

text \<open>
  \<^verbatim>\<open>isinstance(e, C)\<close>: the class of \<open>e\<close> is \<open>C\<close> or derives from it. In the Playwright
  library \<^verbatim>\<open>TimeoutError\<close> derives from \<^verbatim>\<open>Error\<close> (and not from the builtin
  \<^verbatim>\<open>TimeoutError\<close>); no other class here derives from another one of them that an
  \<^verbatim>\<open>except\<close> clause of the two files names.
\<close>

definition isinstance :: "exn \<Rightarrow> exn_class \<Rightarrow> bool" where
  "isinstance e c \<longleftrightarrow> cls e = c \<or> (cls e = PlaywrightTimeoutError \<and> c = PlaywrightError)"

text \<open>\<^verbatim>\<open>isinstance(e, OSError)\<close>, which \<^verbatim>\<open>pathlib\<close> tests.\<close>

definition is_oserror :: "exn \<Rightarrow> bool" where
  "is_oserror e \<longleftrightarrow>
     cls e \<in> {FileNotFoundError, FileExistsError, NotADirectoryError, PermissionError, TimeoutError}"

section \<open>Formatting integers\<close>

definition digit_char :: "nat \<Rightarrow> char" where
  "digit_char d = char_of (of_char (CHR ''0'') + d)"

fun str_nat :: "nat \<Rightarrow> string" where
  "str_nat n = (if n < 10 then [digit_char n] else str_nat (n div 10) @ [digit_char (n mod 10)])"

declare str_nat.simps [simp del]

text \<open>\<^verbatim>\<open>f"{i}"\<close> for a Python \<^verbatim>\<open>int\<close>.\<close>

definition str_int :: "int \<Rightarrow> string" where
  "str_int i = (if i < 0 then CHR ''-'' # str_nat (nat (- i)) else str_nat (nat i))"

section \<open>The browser library and the file system\<close>

text \<open>
  The objects the Playwright library hands out are references (numbers) into a store.
  Per driver (\<^verbatim>\<open>Playwright\<close>): whether it was started and not yet stopped. Per engine
  (\<^verbatim>\<open>Browser\<close>): what \<^verbatim>\<open>is_connected()\<close> answers and the driver that launched it. Per
  \<^verbatim>\<open>Page\<close>: what \<^verbatim>\<open>is_closed()\<close> answers, its engine, \<^verbatim>\<open>viewport_size\<close> (absent for a
  page of a context without viewport), \<^verbatim>\<open>url\<close> and title. The file system is the set of
  directories other than the root and the sizes of the files, each named by its absolute
  path (the list of its components below the root), and the working directory. \<open>calls\<close>
  records every call made into the library and every \<^verbatim>\<open>os.mkdir\<close>, the most recent first.
\<close>

type_synonym path = "string list"

text \<open>
  A path as the program writes it (\<^verbatim>\<open>pathlib.PurePath\<close>): whether it starts at the root,
  and its components.
\<close>

type_synonym pure_path = "bool \<times> path"

datatype call =
    PwStart
  | Launch nat bool int
  | NewContext nat int int
  | NewPage nat
  | PageClose nat
  | BrowserClose nat
  | PwStop nat
  | Goto nat string string int
  | Title nat
  | Screenshot nat string bool int
  | Mkdir pure_path

record world =
  pw_running :: "nat \<Rightarrow> bool"
  br_connected :: "nat \<Rightarrow> bool"
  br_driver :: "nat \<Rightarrow> nat"
  pg_closed :: "nat \<Rightarrow> bool"
  pg_browser :: "nat \<Rightarrow> nat"
  pg_viewport :: "nat \<Rightarrow> (int \<times> int) option"
  pg_url :: "nat \<Rightarrow> string"
  pg_title :: "nat \<Rightarrow> string"
  fs_dirs :: "path set"
  fs_files :: "path \<Rightarrow> nat option"
  cwd :: path
  next_id :: nat
  calls :: "call list"

definition initial_world :: world where
  "initial_world = \<lparr>pw_running = (\<lambda>_. False), br_connected = (\<lambda>_. False), br_driver = (\<lambda>_. 0),
     pg_closed = (\<lambda>_. True), pg_browser = (\<lambda>_. 0), pg_viewport = (\<lambda>_. None),
     pg_url = (\<lambda>_. []), pg_title = (\<lambda>_. []), fs_dirs = {}, fs_files = (\<lambda>_. None),
     cwd = [], next_id = 0, calls = []\<rparr>"

text \<open>
  What the surroundings do to a call is not decided by the program: \<open>fails\<close> says which
  calls raise and what, \<open>landing\<close> gives the URL and title a navigation ends at, and
  \<open>shot_size\<close> the size of a written screenshot.
\<close>

record env =
  fails :: "call \<Rightarrow> exn option"
  landing :: "string \<Rightarrow> string \<times> string"
  shot_size :: nat

type_synonym 'a outcome = "(exn + 'a) \<times> world"

definition log_call :: "call \<Rightarrow> world \<Rightarrow> world" where
  "log_call c w = w\<lparr>calls := c # calls w\<rparr>"

text \<open>
  Once a driver is stopped its connection is closed, and a call through it raises the
  library's \<^verbatim>\<open>Error\<close>; so does a call on a page that is closed.
\<close>

definition target_closed :: exn where
  "target_closed = Exn PlaywrightError ''Target page, context or browser has been closed''"

text \<open>\<^verbatim>\<open>await async_playwright().start()\<close>\<close>

definition pw_start :: "env \<Rightarrow> world \<Rightarrow> nat outcome" where
  "pw_start env w =
     (let w1 = log_call PwStart w in
      case fails env PwStart of
        Some e \<Rightarrow> (Inl e, w1)
      | None \<Rightarrow>
          (let d = next_id w1 in
           (Inr d, w1\<lparr>pw_running := (pw_running w1)(d := True), next_id := Suc d\<rparr>)))"

text \<open>\<^verbatim>\<open>await playwright.chromium.launch(headless=..., timeout=...)\<close>\<close>

definition launch :: "env \<Rightarrow> nat \<Rightarrow> bool \<Rightarrow> int \<Rightarrow> world \<Rightarrow> nat outcome" where
  "launch env d h t w =
     (let w1 = log_call (Launch d h t) w in
      if \<not> pw_running w1 d then (Inl target_closed, w1)
      else case fails env (Launch d h t) of
        Some e \<Rightarrow> (Inl e, w1)
      | None \<Rightarrow>
          (let b = next_id w1 in
           (Inr b, w1\<lparr>br_connected := (br_connected w1)(b := True),
                       br_driver := (br_driver w1)(b := d), next_id := Suc b\<rparr>)))"

text \<open>\<^verbatim>\<open>await browser.new_context(viewport={'width': ..., 'height': ...})\<close>\<close>

datatype browser_context = Context nat int int

definition new_context :: "env \<Rightarrow> nat \<Rightarrow> int \<Rightarrow> int \<Rightarrow> world \<Rightarrow> browser_context outcome" where
  "new_context env b vw vh w =
     (let w1 = log_call (NewContext b vw vh) w in
      case fails env (NewContext b vw vh) of
        Some e \<Rightarrow> (Inl e, w1)
      | None \<Rightarrow> (Inr (Context b vw vh), w1))"

text \<open>\<^verbatim>\<open>await context.new_page()\<close>\<close>

fun new_page :: "env \<Rightarrow> browser_context \<Rightarrow> world \<Rightarrow> nat outcome" where
  "new_page env (Context b vw vh) w =
     (let w1 = log_call (NewPage b) w in
      case fails env (NewPage b) of
        Some e \<Rightarrow> (Inl e, w1)
      | None \<Rightarrow>
          (let p = next_id w1 in
           (Inr p, w1\<lparr>pg_closed := (pg_closed w1)(p := False),
                       pg_browser := (pg_browser w1)(p := b),
                       pg_viewport := (pg_viewport w1)(p := Some (vw, vh)),
                       pg_url := (pg_url w1)(p := ''about:blank''),
                       pg_title := (pg_title w1)(p := []),
                       next_id := Suc p\<rparr>)))"

text \<open>\<^verbatim>\<open>await page.close()\<close>\<close>

definition page_close :: "env \<Rightarrow> nat \<Rightarrow> world \<Rightarrow> unit outcome" where
  "page_close env p w =
     (let w1 = log_call (PageClose p) w in
      case fails env (PageClose p) of
        Some e \<Rightarrow> (Inl e, w1)
      | None \<Rightarrow> (Inr (), w1\<lparr>pg_closed := (pg_closed w1)(p := True)\<rparr>))"

text \<open>\<^verbatim>\<open>await browser.close()\<close>: the engine disconnects and its pages are closed.\<close>

definition browser_close :: "env \<Rightarrow> nat \<Rightarrow> world \<Rightarrow> unit outcome" where
  "browser_close env b w =
     (let w1 = log_call (BrowserClose b) w in
      case fails env (BrowserClose b) of
        Some e \<Rightarrow> (Inl e, w1)
      | None \<Rightarrow>
          (Inr (), w1\<lparr>br_connected := (br_connected w1)(b := False),
                       pg_closed := (\<lambda>p. pg_closed w1 p \<or> pg_browser w1 p = b)\<rparr>))"

text \<open>\<^verbatim>\<open>await playwright.stop()\<close>\<close>

definition pw_stop :: "env \<Rightarrow> nat \<Rightarrow> world \<Rightarrow> unit outcome" where
  "pw_stop env d w =
     (let w1 = log_call (PwStop d) w in
      case fails env (PwStop d) of
        Some e \<Rightarrow> (Inl e, w1)
      | None \<Rightarrow> (Inr (), w1\<lparr>pw_running := (pw_running w1)(d := False)\<rparr>))"

section \<open>The lifecycle manager: \<^verbatim>\<open>browser_manager.py\<close>\<close>

text \<open>
  \<^verbatim>\<open>BrowserManager\<close>: the three slots \<^verbatim>\<open>_playwright\<close>, \<^verbatim>\<open>_browser\<close>, \<^verbatim>\<open>_page\<close> and the
  configuration read from the environment when the class is created. The class is a
  singleton, so one value of this record is the state of the whole process. Each method
  body under \<^verbatim>\<open>async with self._lock\<close> runs as one step.
\<close>

record manager =
  playwright :: "nat option"
  browser :: "nat option"
  page :: "nat option"
  headless :: bool
  browser_timeout :: int
  viewport_width :: int
  viewport_height :: int

definition initial_manager :: "bool \<Rightarrow> int \<Rightarrow> int \<Rightarrow> int \<Rightarrow> manager" where
  "initial_manager h t vw vh =
     \<lparr>playwright = None, browser = None, page = None, headless = h, browser_timeout = t,
      viewport_width = vw, viewport_height = vh\<rparr>"

text \<open>The defaults of \<^verbatim>\<open>HEADLESS\<close>, \<^verbatim>\<open>BROWSER_TIMEOUT\<close>, \<^verbatim>\<open>VIEWPORT_WIDTH\<close>, \<^verbatim>\<open>VIEWPORT_HEIGHT\<close>.\<close>

definition default_manager :: manager where
  "default_manager = initial_manager True 30000 1920 1080"

text \<open>The body of the \<^verbatim>\<open>try\<close> block of \<^verbatim>\<open>ensure_browser\<close>: the exception that left it, if any.\<close>

definition init_body :: "env \<Rightarrow> manager \<Rightarrow> world \<Rightarrow> exn option \<times> manager \<times> world" where
  "init_body env m w =
     (case (case playwright m of None \<Rightarrow> pw_start env w | Some d \<Rightarrow> (Inr d, w)) of
        (Inl e, w1) \<Rightarrow> (Some e, m, w1)
      | (Inr d, w1) \<Rightarrow>
          (let m1 = m\<lparr>playwright := Some d\<rparr> in
           case launch env d (headless m1) (browser_timeout m1) w1 of
             (Inl e, w2) \<Rightarrow> (Some e, m1, w2)
           | (Inr b, w2) \<Rightarrow>
               (let m2 = m1\<lparr>browser := Some b\<rparr> in
                case new_context env b (viewport_width m2) (viewport_height m2) w2 of
                  (Inl e, w3) \<Rightarrow> (Some e, m2, w3)
                | (Inr ctx, w3) \<Rightarrow>
                    (case new_page env ctx w3 of
                       (Inl e, w4) \<Rightarrow> (Some e, m2, w4)
                     | (Inr p, w4) \<Rightarrow> (None, m2\<lparr>page := Some p\<rparr>, w4)))))"

text \<open>The three \<^verbatim>\<open>except\<close> clauses of \<^verbatim>\<open>ensure_browser\<close>, in their order.\<close>

definition reraise :: "manager \<Rightarrow> exn \<Rightarrow> exn" where
  "reraise m e =
     (if isinstance e TimeoutError then
        Exn TimeoutError (''Browser launch timed out after '' @ str_int (browser_timeout m)
          @ ''ms. '' @ ''Try increasing BROWSER_TIMEOUT in .env'')
      else if isinstance e PlaywrightError then
        Exn PlaywrightError (''Failed to launch browser: '' @ str e @ ''. ''
          @ ''Ensure Playwright browsers are installed with '' @ [CHR 0x27]
          @ ''playwright install chromium'' @ [CHR 0x27])
      else
        Exn RuntimeError (''Unexpected error during browser initialization: '' @ str e))"

definition page_dead :: "manager \<Rightarrow> world \<Rightarrow> bool" where
  "page_dead m w = (case page m of None \<Rightarrow> True | Some p \<Rightarrow> pg_closed w p)"

definition ensure_browser :: "env \<Rightarrow> manager \<Rightarrow> world \<Rightarrow> (exn + nat option) \<times> manager \<times> world" where
  "ensure_browser env m w =
     (if page_dead m w then
        (case init_body env m w of
           (Some e, m', w') \<Rightarrow> (Inl (reraise m' e), m', w')
         | (None, m', w') \<Rightarrow> (Inr (page m'), m', w'))
      else (Inr (page m), m, w))"

definition get_page :: "env \<Rightarrow> manager \<Rightarrow> world \<Rightarrow> (exn + nat option) \<times> manager \<times> world" where
  "get_page env m w = ensure_browser env m w"

text \<open>\<^verbatim>\<open>try: ... except Exception: pass\<close>\<close>

definition try_pass :: "unit outcome \<Rightarrow> unit outcome" where
  "try_pass r = (case r of (Inl e, w) \<Rightarrow> (Inr (), w) | (Inr u, w) \<Rightarrow> (Inr (), w))"

text \<open>Sequencing of two statements: an exception of the first skips the second.\<close>

definition seq :: "unit outcome \<Rightarrow> (world \<Rightarrow> unit outcome) \<Rightarrow> unit outcome" where
  "seq r f = (case r of (Inl e, w) \<Rightarrow> (Inl e, w) | (Inr u, w) \<Rightarrow> f w)"

definition cleanup_browser :: "env \<Rightarrow> manager \<Rightarrow> world \<Rightarrow> unit outcome" where
  "cleanup_browser env m w =
     seq (try_pass (case page m of
                      None \<Rightarrow> (Inr (), w)
                    | Some p \<Rightarrow> if \<not> pg_closed w p then page_close env p w else (Inr (), w)))
       (\<lambda>w1. seq (try_pass (case browser m of
                               None \<Rightarrow> (Inr (), w1)
                             | Some b \<Rightarrow> if br_connected w1 b then browser_close env b w1
                                         else (Inr (), w1)))
          (\<lambda>w2. try_pass (case playwright m of
                             None \<Rightarrow> (Inr (), w2)
                           | Some d \<Rightarrow> pw_stop env d w2)))"

definition cleanup :: "env \<Rightarrow> manager \<Rightarrow> world \<Rightarrow> (exn + unit) \<times> manager \<times> world" where
  "cleanup env m w =
     (case cleanup_browser env m w of
        (Inl e, w') \<Rightarrow> (Inl e, m, w')
      | (Inr u, w') \<Rightarrow> (Inr (), m\<lparr>playwright := None, browser := None, page := None\<rparr>, w'))"

definition restart_browser :: "env \<Rightarrow> manager \<Rightarrow> world \<Rightarrow> (exn + nat option) \<times> manager \<times> world" where
  "restart_browser env m w =
     (case cleanup_browser env m w of
        (Inl e, w') \<Rightarrow> (Inl e, m, w')
      | (Inr u, w') \<Rightarrow> ensure_browser env (m\<lparr>browser := None, page := None\<rparr>) w')"

definition is_initialized :: "manager \<Rightarrow> world \<Rightarrow> bool" where
  "is_initialized m w =
     (case browser m of
        None \<Rightarrow> False
      | Some b \<Rightarrow>
          br_connected w b \<and> (case page m of None \<Rightarrow> False | Some p \<Rightarrow> \<not> pg_closed w p))"

definition get_current_url :: "manager \<Rightarrow> world \<Rightarrow> string option" where
  "get_current_url m w =
     (if is_initialized m w then (case page m of Some p \<Rightarrow> Some (pg_url w p) | None \<Rightarrow> None)
      else None)"

text \<open>
  \<^verbatim>\<open>get_viewport_size\<close>. The dictionary with the keys \<^verbatim>\<open>'width'\<close> and \<^verbatim>\<open>'height'\<close> is the
  pair of the two values. Subscripting \<^verbatim>\<open>viewport_size\<close> when it is \<^verbatim>\<open>None\<close> raises
  \<^verbatim>\<open>TypeError\<close>. The manager and the world are returned as the method leaves them.
\<close>

definition get_viewport_size :: "manager \<Rightarrow> world \<Rightarrow> (exn + int \<times> int) \<times> manager \<times> world" where
  "get_viewport_size m w =
     (case (if is_initialized m w then page m else None) of
        Some p \<Rightarrow>
          (case pg_viewport w p of
             None \<Rightarrow> (Inl (Exn TypeError ''NoneType object is not subscriptable''), m, w)
           | Some (vw, vh) \<Rightarrow> (Inr (vw, vh), m, w))
      | None \<Rightarrow> (Inr (viewport_width m, viewport_height m), m, w))"

text \<open>
  What happens to the handles outside the manager's methods: a page is closed (a tab
  crash, or a script closing the window), the engine disconnects (its pages are closed
  with it, as when it is closed by \<^verbatim>\<open>browser.close()\<close>), a page's viewport is set to
  another size.
\<close>

definition page_closed :: "nat \<Rightarrow> world \<Rightarrow> world" where
  "page_closed p w = w\<lparr>pg_closed := (pg_closed w)(p := True)\<rparr>"

definition engine_disconnected :: "nat \<Rightarrow> world \<Rightarrow> world" where
  "engine_disconnected b w =
     w\<lparr>br_connected := (br_connected w)(b := False),
       pg_closed := (\<lambda>p. pg_closed w p \<or> pg_browser w p = b)\<rparr>"

definition viewport_changed :: "nat \<Rightarrow> int \<times> int \<Rightarrow> world \<Rightarrow> world" where
  "viewport_changed p v w = w\<lparr>pg_viewport := (pg_viewport w)(p := Some v)\<rparr>"

section \<open>Strings and paths\<close>

text \<open>\<^verbatim>\<open>str.lower()\<close> on the ASCII letters; other bytes are left as they are.\<close>

definition lower_char :: "char \<Rightarrow> char" where
  "lower_char c =
     (if of_char (CHR ''A'') \<le> (of_char c :: nat) \<and> (of_char c :: nat) \<le> of_char (CHR ''Z'')
      then char_of ((of_char c :: nat) + 32) else c)"

definition lower :: "string \<Rightarrow> string" where
  "lower s = map lower_char s"

text \<open>\<^verbatim>\<open>sub in s\<close>\<close>

fun contains :: "string \<Rightarrow> string \<Rightarrow> bool" where
  "contains sub [] = (sub = [])"
| "contains sub (c # cs) = (prefix sub (c # cs) \<or> contains sub cs)"

text \<open>
  \<^verbatim>\<open>str.strip()\<close>: the ASCII characters for which \<^verbatim>\<open>str.isspace()\<close> holds. A string is a
  list of bytes here, so white space outside ASCII is not stripped; a path made of such
  characters only has no suffix and is refused by the next check of \<^verbatim>\<open>screenshot\<close>.
\<close>

definition isspace :: "char \<Rightarrow> bool" where
  "isspace c \<longleftrightarrow> (of_char c :: nat) \<in> {9, 10, 11, 12, 13, 28, 29, 30, 31, 32}"

definition strip :: "string \<Rightarrow> string" where
  "strip s = rev (dropWhile isspace (rev (dropWhile isspace s)))"

fun split_on :: "char \<Rightarrow> string \<Rightarrow> string list" where
  "split_on s [] = [[]]"
| "split_on s (c # cs) =
     (if c = s then [] # split_on s cs
      else (case split_on s cs of x # xs \<Rightarrow> (c # x) # xs | [] \<Rightarrow> [[c]]))"

fun join :: "string \<Rightarrow> string list \<Rightarrow> string" where
  "join s [] = []"
| "join s [x] = x"
| "join s (x # y # ys) = x @ s @ join s (y # ys)"

text \<open>
  \<^verbatim>\<open>pathlib.Path\<close> on a POSIX system: whether the path has the root, and its components
  (empty ones and \<^verbatim>\<open>.\<close> are dropped when the string is parsed, \<^verbatim>\<open>..\<close> is kept).
\<close>

definition Path :: "string \<Rightarrow> pure_path" where
  "Path s = (prefix ''/'' s, filter (\<lambda>x. x \<noteq> [] \<and> x \<noteq> ''.'') (split_on (CHR ''/'') s))"

definition parent :: "pure_path \<Rightarrow> pure_path" where
  "parent p = (fst p, butlast (snd p))"

definition name :: "pure_path \<Rightarrow> string" where
  "name p = (if snd p = [] then [] else last (snd p))"

text \<open>\<^verbatim>\<open>str.rfind(c)\<close>: the index of the last occurrence, or \<open>-1\<close>.\<close>

definition rfind :: "char \<Rightarrow> string \<Rightarrow> int" where
  "rfind c s =
     (if c \<in> set s then int (length s) - 1 - int (length (takeWhile (\<lambda>x. x \<noteq> c) (rev s)))
      else - 1)"

text \<open>\<^verbatim>\<open>PurePath.suffix\<close>\<close>

definition path_suffix :: "pure_path \<Rightarrow> string" where
  "path_suffix p =
     (let n = name p; i = rfind (CHR ''.'') n
      in if 0 < i \<and> i < int (length n) - 1 then drop (nat i) n else [])"

text \<open>\<^verbatim>\<open>Path.resolve()\<close>, without symbolic links: below the working directory when the path
  is relative, and \<^verbatim>\<open>..\<close> steps up.\<close>

fun normalise :: "path \<Rightarrow> path \<Rightarrow> path" where
  "normalise acc [] = rev acc"
| "normalise acc (x # xs) =
     (if x = ''..'' then normalise (tl acc) xs else normalise (x # acc) xs)"

definition resolve :: "world \<Rightarrow> pure_path \<Rightarrow> path" where
  "resolve w p = normalise [] (if fst p then snd p else cwd w @ snd p)"

definition path_str :: "path \<Rightarrow> string" where
  "path_str ps = CHR ''/'' # join ''/'' ps"

section \<open>Directories\<close>

definition dir_exists :: "world \<Rightarrow> path \<Rightarrow> bool" where
  "dir_exists w d \<longleftrightarrow> d = [] \<or> d \<in> fs_dirs w"

text \<open>
  The system's walk along the components of a path, from a directory: \<^verbatim>\<open>..\<close> steps up,
  and any other component must name a directory that exists.
\<close>

fun walk :: "world \<Rightarrow> path \<Rightarrow> string list \<Rightarrow> exn + path" where
  "walk w cur [] = Inr cur"
| "walk w cur (x # xs) =
     (if x = ''..'' then walk w (butlast cur) xs
      else if dir_exists w (cur @ [x]) then walk w (cur @ [x]) xs
      else if fs_files w (cur @ [x]) \<noteq> None then Inl (Exn NotADirectoryError ''Not a directory'')
      else Inl (Exn FileNotFoundError ''No such file or directory''))"

definition start_dir :: "world \<Rightarrow> pure_path \<Rightarrow> path" where
  "start_dir w p = (if fst p then [] else cwd w)"

text \<open>\<^verbatim>\<open>Path.is_dir()\<close>\<close>

definition is_dir :: "world \<Rightarrow> pure_path \<Rightarrow> bool" where
  "is_dir w p = (case walk w (start_dir w p) (snd p) of Inr d \<Rightarrow> True | Inl e \<Rightarrow> False)"

text \<open>
  \<^verbatim>\<open>os.mkdir(path)\<close>: the directory above must be reached; then the surroundings may refuse
  (permissions, a read-only file system); then the name must be free.
\<close>

definition os_mkdir :: "env \<Rightarrow> pure_path \<Rightarrow> world \<Rightarrow> unit outcome" where
  "os_mkdir env p w =
     (let w1 = log_call (Mkdir p) w in
      if snd p = [] then (Inl (Exn FileExistsError ''File exists''), w1)
      else
        (case walk w1 (start_dir w1 p) (butlast (snd p)) of
           Inl e \<Rightarrow> (Inl e, w1)
         | Inr d \<Rightarrow>
             (case fails env (Mkdir p) of
                Some e \<Rightarrow> (Inl e, w1)
              | None \<Rightarrow>
                  (if last (snd p) = ''..'' \<or> dir_exists w1 (d @ [last (snd p)])
                        \<or> fs_files w1 (d @ [last (snd p)]) \<noteq> None
                   then (Inl (Exn FileExistsError ''File exists''), w1)
                   else (Inr (), w1\<lparr>fs_dirs := insert (d @ [last (snd p)]) (fs_dirs w1)\<rparr>)))))"

text \<open>
  \<^verbatim>\<open>Path.mkdir(parents=False, exist_ok=True)\<close>: an \<^verbatim>\<open>OSError\<close> other than
  \<^verbatim>\<open>FileNotFoundError\<close> is passed over when the path is a directory.
\<close>

definition mkdir_single :: "env \<Rightarrow> pure_path \<Rightarrow> world \<Rightarrow> unit outcome" where
  "mkdir_single env p w =
     (case os_mkdir env p w of
        (Inr u, w1) \<Rightarrow> (Inr (), w1)
      | (Inl e, w1) \<Rightarrow>
          (if cls e \<noteq> FileNotFoundError \<and> is_oserror e \<and> is_dir w1 p then (Inr (), w1)
           else (Inl e, w1)))"

text \<open>
  \<^verbatim>\<open>Path.mkdir(parents=True, exist_ok=True)\<close>: on \<^verbatim>\<open>FileNotFoundError\<close> the parent is made
  first, in the same way, and then the directory itself.
\<close>

function mkdir :: "env \<Rightarrow> pure_path \<Rightarrow> world \<Rightarrow> unit outcome" where
  "mkdir env p w =
     (case os_mkdir env p w of
        (Inr u, w1) \<Rightarrow> (Inr (), w1)
      | (Inl e, w1) \<Rightarrow>
          (if cls e = FileNotFoundError then
             (if parent p = p then (Inl e, w1)
              else
                (case mkdir env (parent p) w1 of
                   (Inl e', w2) \<Rightarrow> (Inl e', w2)
                 | (Inr u, w2) \<Rightarrow> mkdir_single env p w2))
           else if is_oserror e \<and> is_dir w1 p then (Inr (), w1)
           else (Inl e, w1)))"
  by pat_completeness auto
termination
  apply (relation "measure (\<lambda>(env, p, w). length (snd p))")
   apply simp
  apply (auto simp: parent_def)
  apply (metis butlast.simps(1) diff_Suc_less length_greater_0_conv)
  done

declare mkdir.simps [simp del]

text \<open>\<^verbatim>\<open>await page.goto(url, wait_until=..., timeout=...)\<close>\<close>

definition page_goto :: "env \<Rightarrow> nat \<Rightarrow> string \<Rightarrow> string \<Rightarrow> int \<Rightarrow> world \<Rightarrow> unit outcome" where
  "page_goto env p url wait_until t w =
     (let w1 = log_call (Goto p url wait_until t) w in
      if pg_closed w1 p then (Inl target_closed, w1)
      else case fails env (Goto p url wait_until t) of
        Some e \<Rightarrow> (Inl e, w1)
      | None \<Rightarrow>
          (Inr (), w1\<lparr>pg_url := (pg_url w1)(p := fst (landing env url)),
                       pg_title := (pg_title w1)(p := snd (landing env url))\<rparr>))"

text \<open>\<^verbatim>\<open>await page.title()\<close>\<close>

definition page_title :: "env \<Rightarrow> nat \<Rightarrow> world \<Rightarrow> string outcome" where
  "page_title env p w =
     (let w1 = log_call (Title p) w in
      if pg_closed w1 p then (Inl target_closed, w1)
      else case fails env (Title p) of
        Some e \<Rightarrow> (Inl e, w1)
      | None \<Rightarrow> (Inr (pg_title w1 p), w1))"

text \<open>\<^verbatim>\<open>await page.screenshot(path=..., full_page=..., timeout=...)\<close>\<close>

definition page_screenshot :: "env \<Rightarrow> nat \<Rightarrow> string \<Rightarrow> bool \<Rightarrow> int \<Rightarrow> world \<Rightarrow> unit outcome" where
  "page_screenshot env p path_arg full_page t w =
     (let w1 = log_call (Screenshot p path_arg full_page t) w in
      if pg_closed w1 p then (Inl target_closed, w1)
      else case fails env (Screenshot p path_arg full_page t) of
        Some e \<Rightarrow> (Inl e, w1)
      | None \<Rightarrow>
          (Inr (), w1\<lparr>fs_files := (fs_files w1)(resolve w1 (Path path_arg) := Some (shot_size env))\<rparr>))"

section \<open>The tools: \<^verbatim>\<open>server.py\<close>\<close>

text \<open>The values of a response dictionary, and the dictionary as a map from its keys.\<close>

datatype jvalue = JBool bool | JInt int | JStr string | JDict "(string \<times> jvalue) list"

type_synonym response = "string \<rightharpoonup> jvalue"

text \<open>\<^verbatim>\<open>NAVIGATION_TIMEOUT\<close>, \<^verbatim>\<open>ELEMENT_TIMEOUT\<close>, \<^verbatim>\<open>SCREENSHOT_TIMEOUT\<close>\<close>

record server_config =
  navigation_timeout :: int
  element_timeout :: int
  screenshot_timeout :: int

definition default_config :: server_config where
  "default_config = \<lparr>navigation_timeout = 30000, element_timeout = 10000, screenshot_timeout = 5000\<rparr>"

definition parse_playwright_error :: "exn \<Rightarrow> string \<times> string" where
  "parse_playwright_error error =
     (let error_msg = lower (str error) in
      if contains ''net::err_name_not_resolved'' error_msg \<or> contains ''dns'' error_msg then
        (''NetworkError'', ''DNS lookup failed. Check URL spelling and internet connection'')
      else if contains ''net::err_connection_refused'' error_msg then
        (''NetworkError'', ''Connection refused. The server may be down or unreachable'')
      else if contains ''ssl'' error_msg \<or> contains ''certificate'' error_msg then
        (''NetworkError'', ''SSL certificate error. The site may have security issues'')
      else if contains ''timeout'' error_msg \<or> isinstance error TimeoutError
                \<or> isinstance error PlaywrightTimeoutError then
        (''TimeoutError'',
         ''Operation timed out. Try increasing timeout or check if site is accessible'')
      else if contains ''element is not visible'' error_msg then
        (''ElementNotFound'',
         ''Element exists but not visible. Try scrolling or waiting for it to appear'')
      else if contains ''unable to find element'' error_msg
                \<or> contains ''no element found'' error_msg then
        (''ElementNotFound'', ''Element not found with given selector. Check selector syntax'')
      else if contains ''element is disabled'' error_msg \<or> contains ''readonly'' error_msg then
        (''InvalidElementState'', ''Element is disabled or read-only and cannot be modified'')
      else
        (''UnknownError'', ''An unexpected error occurred. Check the error message for details''))"

definition create_error_response :: "string \<Rightarrow> string \<Rightarrow> string \<Rightarrow> response \<Rightarrow> response" where
  "create_error_response error_type message suggestion kwargs =
     [''success'' \<mapsto> JBool False, ''error'' \<mapsto> JStr message, ''error_type'' \<mapsto> JStr error_type,
      ''suggestion'' \<mapsto> JStr suggestion] ++ kwargs"

text \<open>A method called on \<^verbatim>\<open>None\<close>.\<close>

definition none_attribute :: exn where
  "none_attribute = Exn OtherException ''NoneType object has no attribute''"

text \<open>The body of the \<^verbatim>\<open>try\<close> block of \<^verbatim>\<open>navigate\<close>.\<close>

definition navigate_body ::
  "server_config \<Rightarrow> env \<Rightarrow> string \<Rightarrow> string \<Rightarrow> manager \<Rightarrow> world
     \<Rightarrow> (exn + response) \<times> manager \<times> world" where
  "navigate_body cfg env url wait_until m w =
     (if \<not> (prefix ''http://'' url \<or> prefix ''https://'' url) then
        (Inr (create_error_response ''ValidationError''
                ''URL must start with http:// or https://''
                ''Add http:// or https:// to the URL'' [''url'' \<mapsto> JStr url]), m, w)
      else if wait_until \<notin> set [''load'', ''domcontentloaded'', ''networkidle''] then
        (Inr (create_error_response ''ValidationError''
                (''Invalid wait_until value: '' @ wait_until)
                (''Use '' @ [CHR 0x27] @ ''load'' @ [CHR 0x27] @ '', '' @ [CHR 0x27]
                   @ ''domcontentloaded'' @ [CHR 0x27] @ '', or '' @ [CHR 0x27]
                   @ ''networkidle'' @ [CHR 0x27])
                [''url'' \<mapsto> JStr url]), m, w)
      else
        (case get_page env m w of
           (Inl e, m1, w1) \<Rightarrow> (Inl e, m1, w1)
         | (Inr None, m1, w1) \<Rightarrow> (Inl none_attribute, m1, w1)
         | (Inr (Some p), m1, w1) \<Rightarrow>
             (case page_goto env p url wait_until (navigation_timeout cfg) w1 of
                (Inl e, w2) \<Rightarrow> (Inl e, m1, w2)
              | (Inr u, w2) \<Rightarrow>
                  (case page_title env p w2 of
                     (Inl e, w3) \<Rightarrow> (Inl e, m1, w3)
                   | (Inr title, w3) \<Rightarrow>
                       (Inr [''success'' \<mapsto> JBool True, ''url'' \<mapsto> JStr (pg_url w2 p),
                             ''title'' \<mapsto> JStr title], m1, w3)))))"

definition navigate ::
  "server_config \<Rightarrow> env \<Rightarrow> string \<Rightarrow> string \<Rightarrow> manager \<Rightarrow> world \<Rightarrow> response \<times> manager \<times> world" where
  "navigate cfg env url wait_until m w =
     (case navigate_body cfg env url wait_until m w of
        (Inr r, m', w') \<Rightarrow> (r, m', w')
      | (Inl e, m', w') \<Rightarrow>
          (if isinstance e PlaywrightTimeoutError then
             (create_error_response ''TimeoutError''
                (''Navigation timed out after '' @ str_int (navigation_timeout cfg) @ ''ms'')
                ''Increase NAVIGATION_TIMEOUT or check if site is accessible''
                [''url'' \<mapsto> JStr url], m', w')
           else
             (case parse_playwright_error e of
                (error_type, suggestion) \<Rightarrow>
                  (create_error_response error_type (str e) suggestion [''url'' \<mapsto> JStr url],
                   m', w'))))"

definition valid_extensions :: "string list" where
  "valid_extensions = [''.png'', ''.jpg'', ''.jpeg'']"

text \<open>\<^verbatim>\<open>absolute_path.stat().st_size\<close>\<close>

definition st_size :: "path \<Rightarrow> world \<Rightarrow> nat outcome" where
  "st_size f w =
     (case fs_files w f of
        None \<Rightarrow> (Inl (Exn FileNotFoundError ''No such file or directory''), w)
      | Some n \<Rightarrow> (Inr n, w))"

text \<open>The body of the \<^verbatim>\<open>try\<close> block of \<^verbatim>\<open>screenshot\<close>.\<close>

definition screenshot_body ::
  "server_config \<Rightarrow> env \<Rightarrow> string \<Rightarrow> bool \<Rightarrow> manager \<Rightarrow> world
     \<Rightarrow> (exn + response) \<times> manager \<times> world" where
  "screenshot_body cfg env path_arg full_page m w =
     (if path_arg = [] \<or> strip path_arg = [] then
        (Inr (create_error_response ''ValidationError'' ''Path cannot be empty''
                ''Provide a valid file path'' [''path'' \<mapsto> JStr path_arg]), m, w)
      else
        (let path_obj = Path path_arg in
         if lower (path_suffix path_obj) \<notin> set valid_extensions then
           (Inr (create_error_response ''ValidationError''
                   (''Invalid file extension: '' @ path_suffix path_obj)
                   (''Use one of: '' @ join '', '' valid_extensions)
                   [''path'' \<mapsto> JStr path_arg]), m, w)
         else
           (case mkdir env (parent path_obj) w of
              (Inl e, w0) \<Rightarrow> (Inl e, m, w0)
            | (Inr u, w0) \<Rightarrow>
                (case get_page env m w0 of
                   (Inl e, m1, w1) \<Rightarrow> (Inl e, m1, w1)
                 | (Inr None, m1, w1) \<Rightarrow> (Inl none_attribute, m1, w1)
                 | (Inr (Some p), m1, w1) \<Rightarrow>
                     (case page_screenshot env p path_arg full_page (screenshot_timeout cfg) w1 of
                        (Inl e, w2) \<Rightarrow> (Inl e, m1, w2)
                      | (Inr u, w2) \<Rightarrow>
                          (let absolute_path = resolve w2 path_obj in
                           case st_size absolute_path w2 of
                             (Inl e, w3) \<Rightarrow> (Inl e, m1, w3)
                           | (Inr file_size, w3) \<Rightarrow>
                               (case get_viewport_size m1 w3 of
                                  (Inl e, m4, w4) \<Rightarrow> (Inl e, m4, w4)
                                | (Inr (vw, vh), m4, w4) \<Rightarrow>
                                    (Inr [''success'' \<mapsto> JBool True,
                                          ''path'' \<mapsto> JStr (path_str absolute_path),
                                          ''file_size'' \<mapsto> JInt (int file_size),
                                          ''full_page'' \<mapsto> JBool full_page,
                                          ''viewport'' \<mapsto> JDict [(''width'', JInt vw),
                                                                     (''height'', JInt vh)]],
                                     m4, w4))))))))"

definition screenshot ::
  "server_config \<Rightarrow> env \<Rightarrow> string \<Rightarrow> bool \<Rightarrow> manager \<Rightarrow> world \<Rightarrow> response \<times> manager \<times> world" where
  "screenshot cfg env path_arg full_page m w =
     (case screenshot_body cfg env path_arg full_page m w of
        (Inr r, m', w') \<Rightarrow> (r, m', w')
      | (Inl e, m', w') \<Rightarrow>
          (if isinstance e PlaywrightTimeoutError then
             (create_error_response ''TimeoutError''
                (''Screenshot timed out after '' @ str_int (screenshot_timeout cfg) @ ''ms'')
                ''Try increasing SCREENSHOT_TIMEOUT'' [''path'' \<mapsto> JStr path_arg], m', w')
           else if isinstance e PermissionError then
             (create_error_response ''FileSystemError'' (''Permission denied: '' @ str e)
                ''Check file/directory write permissions'' [''path'' \<mapsto> JStr path_arg], m', w')
           else
             (case parse_playwright_error e of
                (error_type, suggestion) \<Rightarrow>
                  (create_error_response error_type (str e) suggestion
                     [''path'' \<mapsto> JStr path_arg], m', w'))))"

section \<open>Example states\<close>

text \<open>Surroundings in which every call succeeds.\<close>

definition env_ok :: env where
  "env_ok = \<lparr>fails = (\<lambda>_. None), landing = (\<lambda>u. (u, ''Example Domain'')), shot_size = 1024\<rparr>"

text \<open>The manager and the world after the first \<^verbatim>\<open>ensure_browser\<close> of a process.\<close>

definition ready_manager :: manager where
  "ready_manager = fst (snd (ensure_browser env_ok default_manager initial_world))"

definition ready_world :: world where
  "ready_world = snd (snd (ensure_browser env_ok default_manager initial_world))"

text \<open>Which exception class a result raised, if any.\<close>

definition raised :: "exn + 'a \<Rightarrow> exn_class option" where
  "raised r = (case r of Inl e \<Rightarrow> Some (cls e) | Inr x \<Rightarrow> None)"

text \<open>Surroundings in which one call raises and every other call succeeds.\<close>

definition env_failing :: "call \<Rightarrow> exn \<Rightarrow> env" where
  "env_failing c e = env_ok\<lparr>fails := (fails env_ok)(c \<mapsto> e)\<rparr>"

section \<open>Reachable states\<close>

text \<open>
  The states of the manager and the world that a process can be in: it starts with empty
  slots and no handle, and then the manager's methods and the two tools above run, under
  any surroundings, while pages close, engines disconnect and viewports are resized.
\<close>

inductive reachable :: "manager \<Rightarrow> world \<Rightarrow> bool" where
  start: "reachable (initial_manager h t vw vh) (initial_world\<lparr>fs_dirs := ds, fs_files := fs, cwd := c\<rparr>)"
| ensure: "reachable m w \<Longrightarrow> ensure_browser env m w = (r, m', w') \<Longrightarrow> reachable m' w'"
| restart: "reachable m w \<Longrightarrow> restart_browser env m w = (r, m', w') \<Longrightarrow> reachable m' w'"
| cleanup: "reachable m w \<Longrightarrow> cleanup env m w = (u, m', w') \<Longrightarrow> reachable m' w'"
| navigate: "reachable m w \<Longrightarrow> navigate cfg env url wait_until m w = (res, m', w') \<Longrightarrow> reachable m' w'"
| screenshot: "reachable m w \<Longrightarrow> screenshot cfg env path_arg full_page m w = (res, m', w') \<Longrightarrow> reachable m' w'"
| closed: "reachable m w \<Longrightarrow> reachable m (page_closed p w)"
| disconnected: "reachable m w \<Longrightarrow> reachable m (engine_disconnected b w)"
| resized: "reachable m w \<Longrightarrow> pg_viewport w p \<noteq> None \<Longrightarrow> reachable m (viewport_changed p v w)"

text \<open>The page in the page slot, if any, has a viewport.\<close>

definition viewport_known :: "manager \<Rightarrow> world \<Rightarrow> bool" where
  "viewport_known m w = (case page m of None \<Rightarrow> True | Some p \<Rightarrow> pg_viewport w p \<noteq> None)"


text \<open>Two worlds with the same handles: only files, directories, URLs, titles and the log differ.\<close>

definition same_handles :: "world \<Rightarrow> world \<Rightarrow> bool" where
  "same_handles w w' \<longleftrightarrow>
     pw_running w' = pw_running w \<and> br_connected w' = br_connected w
     \<and> br_driver w' = br_driver w \<and> pg_closed w' = pg_closed w \<and> pg_browser w' = pg_browser w
     \<and> pg_viewport w' = pg_viewport w \<and> next_id w' = next_id w \<and> cwd w' = cwd w"

fun is_mkdir :: "call \<Rightarrow> bool" where
  "is_mkdir (Mkdir p) = True"
| "is_mkdir c = False"

text \<open>
  From one world to another by \<^verbatim>\<open>os.mkdir\<close> calls only: the handles and the files are the
  same, no directory is lost, and the log grew by \<^verbatim>\<open>os.mkdir\<close> calls.
\<close>

definition only_mkdirs :: "world \<Rightarrow> world \<Rightarrow> bool" where
  "only_mkdirs w w' \<longleftrightarrow>
     same_handles w w' \<and> fs_dirs w \<subseteq> fs_dirs w' \<and> fs_files w' = fs_files w
     \<and> (\<exists>mk. calls w' = mk @ calls w \<and> list_all is_mkdir mk)"

section \<open>Evaluating the example states\<close>

lemmas api_defs = pw_start_def launch_def new_context_def page_close_def browser_close_def
  pw_stop_def log_call_def

lemmas example_defs = env_failing_def env_ok_def default_manager_def initial_manager_def
  initial_world_def

lemma ready_manager_eq:
  "ready_manager = default_manager\<lparr>playwright := Some 0, browser := Some 1, page := Some 2\<rparr>"
  by (simp add: ready_manager_def ensure_browser_def page_dead_def init_body_def api_defs
      example_defs Let_def)

lemma ready_world_eq:
  "ready_world =
     initial_world\<lparr>pw_running := (\<lambda>_. False)(0 := True),
       br_connected := (\<lambda>_. False)(Suc 0 := True), br_driver := (\<lambda>_. 0)(Suc 0 := 0),
       pg_closed := (\<lambda>_. True)(2 := False), pg_browser := (\<lambda>_. 0)(2 := Suc 0),
       pg_viewport := (\<lambda>_. None)(2 := Some (1920, 1080)),
       pg_url := (\<lambda>_. [])(2 := ''about:blank''), pg_title := (\<lambda>_. [])(2 := []), next_id := 3,
       calls := [NewPage 1, NewContext 1 1920 1080, Launch 0 True 30000, PwStart]\<rparr>"
  by (simp add: ready_world_def ensure_browser_def page_dead_def init_body_def api_defs
      example_defs Let_def numeral_3_eq_3 numeral_2_eq_2)

lemmas fs_defs = mkdir.simps mkdir_single_def os_mkdir_def Path_def parent_def start_dir_def
  dir_exists_def is_dir_def is_oserror_def

lemma path_evals:
  "strip ''/srv/shots/a.png'' \<noteq> []"
  "lower (path_suffix (Path ''/srv/shots/a.png'')) = ''.png''"
  "parent (Path ''/srv/shots/a.png'') = (True, [''srv'', ''shots''])"
  "lower (path_suffix (Path ''/srv/shots/a.txt'')) = ''.txt''"
  by (simp_all add: strip_def isspace_def lower_def lower_char_def path_suffix_def Path_def
      name_def rfind_def parent_def Let_def)

lemma mkdir_eval_ok:
  "fst (mkdir (env_failing (Launch 0 True 30000) (Exn PlaywrightError ''Executable not found''))
         (True, [''srv'', ''shots'']) initial_world) = Inr ()"
  by (simp add: fs_defs log_call_def example_defs Let_def)

lemma mkdir_eval_denied:
  "mkdir (env_failing (Mkdir (True, [''srv'', ''shots''])) (Exn PermissionError ''[Errno 13] Permission denied''))
      (True, [''srv'', ''shots'']) initial_world
   = (Inl (Exn PermissionError ''[Errno 13] Permission denied''),
      initial_world\<lparr>fs_dirs := {[''srv'']},
        calls := [Mkdir (True, [''srv'', ''shots'']), Mkdir (True, [''srv'']),
                  Mkdir (True, [''srv'', ''shots''])]\<rparr>)"
  by (simp add: fs_defs log_call_def example_defs Let_def)

section \<open>Initialization\<close>

text \<open>
  The result of \<^verbatim>\<open>ensure_browser\<close> on a dead page, step by step: what each outcome of the
  library's calls makes of the call and of the manager.
\<close>

lemma reraise_timeout [simp]: "reraise (m\<lparr>playwright := x\<rparr>) e = reraise m e"
  "reraise (m\<lparr>browser := y\<rparr>) e = reraise m e" "reraise (m\<lparr>page := z\<rparr>) e = reraise m e"
  by (simp_all add: reraise_def)

lemma ensure_fail_start:
  "page_dead m w \<and> playwright m = None \<and> pw_start env w = (Inl e, w1)
     \<Longrightarrow> ensure_browser env m w = (Inl (reraise m e), m, w1)"
  by (simp add: ensure_browser_def init_body_def)

lemma ensure_fail_launch:
  "page_dead m w
   \<and> ((playwright m = Some d \<and> w1 = w) \<or> (playwright m = None \<and> pw_start env w = (Inr d, w1)))
   \<and> launch env d (headless m) (browser_timeout m) w1 = (Inl e, w2)
     \<Longrightarrow> ensure_browser env m w = (Inl (reraise m e), m\<lparr>playwright := Some d\<rparr>, w2)"
  by (auto simp: ensure_browser_def init_body_def Let_def)

lemma ensure_fail_context:
  "page_dead m w
   \<and> ((playwright m = Some d \<and> w1 = w) \<or> (playwright m = None \<and> pw_start env w = (Inr d, w1)))
   \<and> launch env d (headless m) (browser_timeout m) w1 = (Inr b, w2)
   \<and> new_context env b (viewport_width m) (viewport_height m) w2 = (Inl e, w3)
     \<Longrightarrow> ensure_browser env m w
           = (Inl (reraise m e), m\<lparr>playwright := Some d, browser := Some b\<rparr>, w3)"
  by (auto simp: ensure_browser_def init_body_def Let_def)

lemma ensure_fail_page:
  "page_dead m w
   \<and> ((playwright m = Some d \<and> w1 = w) \<or> (playwright m = None \<and> pw_start env w = (Inr d, w1)))
   \<and> launch env d (headless m) (browser_timeout m) w1 = (Inr b, w2)
   \<and> new_context env b (viewport_width m) (viewport_height m) w2 = (Inr ctx, w3)
   \<and> new_page env ctx w3 = (Inl e, w4)
     \<Longrightarrow> ensure_browser env m w
           = (Inl (reraise m e), m\<lparr>playwright := Some d, browser := Some b\<rparr>, w4)"
  by (auto simp: ensure_browser_def init_body_def Let_def)



lemma init_body_fail:
  assumes "init_body env m w = (Some e, m', w')"
  shows "page m' = page m"
  using assms
  by (auto simp: init_body_def api_defs Let_def
      split: option.splits sum.splits prod.splits if_splits)

lemma reraise_class:
  "cls (reraise m e) =
     (if cls e = TimeoutError then TimeoutError
      else if cls e = PlaywrightError \<or> cls e = PlaywrightTimeoutError then PlaywrightError
      else RuntimeError)"
  by (auto simp: reraise_def isinstance_def)

lemma ensure_browser_raise:
  assumes "ensure_browser env m w = (Inl e, m', w')"
  shows "page_dead m w \<and> page m' = page m
     \<and> (cls e = TimeoutError \<or> cls e = PlaywrightError \<or> cls e = RuntimeError)"
proof -
  from assms have d: "page_dead m w"
    by (auto simp: ensure_browser_def split: if_splits)
  with assms obtain e0 where i: "init_body env m w = (Some e0, m', w')" and e: "e = reraise m' e0"
    by (auto simp: ensure_browser_def split: prod.splits option.splits)
  from init_body_fail [OF i] d e show ?thesis by (simp add: reraise_class)
qed

text \<open>
  C1, as the code has it. Whichever step of the initialization inside \<^verbatim>\<open>ensure_browser\<close>
  fails, the call raises the failure again under its class, and the page slot keeps the
  value it had before the call. The handle state is not reset. When starting the driver
  fails, the manager is unchanged. When the launch fails, the driver slot holds the driver
  and the engine slot keeps its previous value. When opening the context or the page
  fails, the driver slot holds the driver and the engine slot holds the engine that was
  just launched. Conversely a call that raises was an initialization, raised one of the
  three classes and left the page slot as it was.
\<close>

theorem ensure_browser_failure_state:
  "(page_dead m w \<and> playwright m = None \<and> pw_start env w = (Inl e, w1)
      \<longrightarrow> ensure_browser env m w = (Inl (reraise m e), m, w1))
   \<and> (page_dead m w
       \<and> ((playwright m = Some d \<and> w1 = w) \<or> (playwright m = None \<and> pw_start env w = (Inr d, w1)))
       \<and> launch env d (headless m) (browser_timeout m) w1 = (Inl e, w2)
      \<longrightarrow> ensure_browser env m w = (Inl (reraise m e), m\<lparr>playwright := Some d\<rparr>, w2))
   \<and> (page_dead m w
       \<and> ((playwright m = Some d \<and> w1 = w) \<or> (playwright m = None \<and> pw_start env w = (Inr d, w1)))
       \<and> launch env d (headless m) (browser_timeout m) w1 = (Inr b, w2)
       \<and> new_context env b (viewport_width m) (viewport_height m) w2 = (Inl e, w3)
      \<longrightarrow> ensure_browser env m w
            = (Inl (reraise m e), m\<lparr>playwright := Some d, browser := Some b\<rparr>, w3))
   \<and> (page_dead m w
       \<and> ((playwright m = Some d \<and> w1 = w) \<or> (playwright m = None \<and> pw_start env w = (Inr d, w1)))
       \<and> launch env d (headless m) (browser_timeout m) w1 = (Inr b, w2)
       \<and> new_context env b (viewport_width m) (viewport_height m) w2 = (Inr ctx, w3)
       \<and> new_page env ctx w3 = (Inl e, w4)
      \<longrightarrow> ensure_browser env m w
            = (Inl (reraise m e), m\<lparr>playwright := Some d, browser := Some b\<rparr>, w4))
   \<and> (ensure_browser env m w = (Inl e', m', w')
      \<longrightarrow> page_dead m w \<and> page m' = page m
          \<and> (cls e' = TimeoutError \<or> cls e' = PlaywrightError \<or> cls e' = RuntimeError))"
  using ensure_fail_start [of m w env e w1] ensure_fail_launch [of m w d w1 env e w2]
    ensure_fail_context [of m w d w1 env b w2 e w3]
    ensure_fail_page [of m w d w1 env b w2 ctx w3 e w4]
    ensure_browser_raise [of env m w e' m' w']
  by blast

text \<open>
  A first acquisition in which opening the page raises: the call raises
  \<^verbatim>\<open>PlaywrightError\<close>, the page slot stays empty, and the driver and engine slots hold
  driver 0 and engine 1.
\<close>

theorem ensure_browser_failure_state_witness:
  "raised (fst (ensure_browser (env_failing (NewPage 1) (Exn PlaywrightError ''Protocol error''))
             default_manager initial_world)) = Some PlaywrightError
   \<and> fst (snd (ensure_browser (env_failing (NewPage 1) (Exn PlaywrightError ''Protocol error''))
             default_manager initial_world))
       = default_manager\<lparr>playwright := Some 0, browser := Some 1\<rparr>"
proof -
  let ?e = "Exn PlaywrightError ''Protocol error''"
  let ?env = "env_failing (NewPage 1) ?e"
  define w1 where "w1 = snd (pw_start ?env initial_world)"
  define w2 where "w2 = snd (launch ?env 0 True 30000 w1)"
  define w3 where "w3 = snd (new_context ?env 1 1920 1080 w2)"
  define w4 where "w4 = snd (new_page ?env (Context 1 1920 1080) w3)"
  have s1: "pw_start ?env initial_world = (Inr 0, w1)"
    by (simp add: w1_def api_defs example_defs Let_def)
  have s2: "launch ?env 0 (headless default_manager) (browser_timeout default_manager) w1
              = (Inr 1, w2)"
    by (simp add: w2_def w1_def api_defs example_defs Let_def)
  have s3: "new_context ?env 1 (viewport_width default_manager) (viewport_height default_manager)
              w2 = (Inr (Context 1 1920 1080), w3)"
    by (simp add: w3_def w2_def w1_def api_defs example_defs Let_def)
  have s4: "new_page ?env (Context 1 1920 1080) w3 = (Inl ?e, w4)"
    by (simp add: w4_def w3_def w2_def w1_def api_defs example_defs Let_def)
  have d: "page_dead default_manager initial_world"
    by (simp add: page_dead_def example_defs)
  have pn: "playwright default_manager = None"
    by (simp add: example_defs)
  have "ensure_browser ?env default_manager initial_world
          = (Inl (reraise default_manager ?e),
             default_manager\<lparr>playwright := Some 0, browser := Some 1\<rparr>, w4)"
    using ensure_browser_failure_state
      [where m = default_manager and w = initial_world and env = ?env and d = 0 and ?w1.0 = w1
        and b = 1 and ?w2.0 = w2 and ctx = "Context 1 1920 1080" and ?w3.0 = w3 and e = ?e
        and ?w4.0 = w4]
      d pn s1 s2 s3 s4
    by blast
  then show ?thesis
    by (simp add: raised_def reraise_def isinstance_def)
qed

text \<open>
  C1 as stated fails: in a first acquisition in which opening the context raises, the
  call raises and the engine slot is not empty afterwards; it holds the connected
  engine 1.
\<close>

theorem ensure_browser_failure_leaves_engine:
  "raised (fst (ensure_browser
             (env_failing (NewContext 1 1920 1080) (Exn PlaywrightError ''Protocol error''))
             default_manager initial_world)) = Some PlaywrightError
   \<and> browser (fst (snd (ensure_browser
             (env_failing (NewContext 1 1920 1080) (Exn PlaywrightError ''Protocol error''))
             default_manager initial_world))) = Some 1
   \<and> br_connected (snd (snd (ensure_browser
             (env_failing (NewContext 1 1920 1080) (Exn PlaywrightError ''Protocol error''))
             default_manager initial_world))) 1"
  by (simp add: ensure_browser_def page_dead_def init_body_def api_defs example_defs Let_def
      reraise_def isinstance_def raised_def)

text \<open>
  C2. After a first acquisition the page is closed while its engine 1 stays connected.
  The next \<^verbatim>\<open>ensure_browser\<close> launches engine 3 and opens page 4 without closing engine 1:
  two engines of the running driver 0 are connected, and the manager holds only the new
  one.
\<close>

theorem ensure_browser_relaunch_leaves_two_engines:
  "fst (ensure_browser env_ok ready_manager (page_closed 2 ready_world)) = Inr (Some 4)
   \<and> browser (fst (snd (ensure_browser env_ok ready_manager (page_closed 2 ready_world))))
       = Some 3
   \<and> br_connected (snd (snd (ensure_browser env_ok ready_manager (page_closed 2 ready_world)))) 1
   \<and> br_connected (snd (snd (ensure_browser env_ok ready_manager (page_closed 2 ready_world)))) 3
   \<and> br_driver (snd (snd (ensure_browser env_ok ready_manager (page_closed 2 ready_world)))) 1 = 0
   \<and> br_driver (snd (snd (ensure_browser env_ok ready_manager (page_closed 2 ready_world)))) 3 = 0
   \<and> pw_running (snd (snd (ensure_browser env_ok ready_manager (page_closed 2 ready_world)))) 0"
  by (simp add: ready_manager_eq ready_world_eq page_closed_def
      ensure_browser_def page_dead_def init_body_def api_defs example_defs Let_def)

text \<open>
  C3. \<^verbatim>\<open>restart_browser\<close> after a first acquisition, with every call of the surroundings
  succeeding: the teardown closes the page and the engine and stops driver 0, the driver
  slot is kept, and the launch through the stopped driver raises. The call raises
  \<^verbatim>\<open>PlaywrightError\<close> and the manager is not ready afterwards.
\<close>

theorem restart_after_acquisition_raises:
  "raised (fst (restart_browser env_ok ready_manager ready_world)) = Some PlaywrightError
   \<and> page (fst (snd (restart_browser env_ok ready_manager ready_world))) = None
   \<and> \<not> is_initialized (fst (snd (restart_browser env_ok ready_manager ready_world)))
          (snd (snd (restart_browser env_ok ready_manager ready_world)))
   \<and> calls (snd (snd (restart_browser env_ok ready_manager ready_world)))
       = [Launch 0 True 30000, PwStop 0, BrowserClose 1, PageClose 2] @ calls ready_world"
  by (simp add: ready_manager_eq ready_world_eq restart_browser_def cleanup_browser_def seq_def
      try_pass_def ensure_browser_def page_dead_def init_body_def api_defs example_defs Let_def
      reraise_def isinstance_def target_closed_def raised_def is_initialized_def)

text \<open>
  C5. A first acquisition in which the launch raises the library's \<^verbatim>\<open>TimeoutError\<close>: the
  clause for the builtin \<^verbatim>\<open>TimeoutError\<close> does not catch it, the clause for
  \<^verbatim>\<open>PlaywrightError\<close> does, and the call raises \<^verbatim>\<open>PlaywrightError\<close> with the message of a
  failed launch.
\<close>

theorem playwright_launch_timeout_raises_playwright_error:
  "(case fst (ensure_browser
               (env_failing (Launch 0 True 30000)
                  (Exn PlaywrightTimeoutError ''Timeout 30000ms exceeded.''))
               default_manager initial_world) of
      Inl e \<Rightarrow> cls e = PlaywrightError
                \<and> prefix ''Failed to launch browser: Timeout 30000ms exceeded.'' (str e)
    | Inr p \<Rightarrow> False)"
  by (simp add: ensure_browser_def page_dead_def init_body_def api_defs example_defs Let_def
      reraise_def isinstance_def)

section \<open>Teardown\<close>

lemma cleanup_browser_Inr: "fst (cleanup_browser env m w) = Inr ()"
  by (simp add: cleanup_browser_def seq_def try_pass_def split: prod.splits sum.splits)

lemma cleanup_eq:
  "cleanup env m w =
     (Inr (), m\<lparr>playwright := None, browser := None, page := None\<rparr>,
      snd (cleanup_browser env m w))"
  using cleanup_browser_Inr [of env m w]
  by (cases "cleanup_browser env m w") (auto simp: cleanup_def)

lemma cleanup_browser_absent:
  "playwright m = None \<Longrightarrow> browser m = None \<Longrightarrow> page m = None
     \<Longrightarrow> cleanup_browser env m w = (Inr (), w)"
  by (simp add: cleanup_browser_def seq_def try_pass_def)

lemma cleanup_browser_calls_page:
  "page m = Some p \<Longrightarrow> \<not> pg_closed w p
     \<Longrightarrow> PageClose p \<in> set (calls (snd (cleanup_browser env m w)))"
  by (auto simp: cleanup_browser_def seq_def try_pass_def api_defs Let_def split: option.splits)

lemma cleanup_browser_calls_engine:
  "browser m = Some b \<Longrightarrow> br_connected w b
     \<Longrightarrow> BrowserClose b \<in> set (calls (snd (cleanup_browser env m w)))"
  by (auto simp: cleanup_browser_def seq_def try_pass_def api_defs Let_def split: option.splits)

lemma cleanup_browser_calls_driver:
  "playwright m = Some d \<Longrightarrow> PwStop d \<in> set (calls (snd (cleanup_browser env m w)))"
  by (auto simp: cleanup_browser_def seq_def try_pass_def api_defs Let_def split: option.splits)

lemma restart_eq:
  "restart_browser env m w =
     ensure_browser env (m\<lparr>browser := None, page := None\<rparr>) (snd (cleanup_browser env m w))"
  using cleanup_browser_Inr [of env m w]
  by (cases "cleanup_browser env m w") (auto simp: restart_browser_def)

text \<open>
  C6. \<^verbatim>\<open>cleanup\<close> never raises, whatever the state and whatever the three close calls do,
  and leaves the driver, engine and page slots empty. Each close is attempted on its own:
  the page is closed when it is open, the engine is closed when it is connected and the
  driver is stopped when there is one, also when an earlier close raised. A second
  \<^verbatim>\<open>cleanup\<close> right after, and a \<^verbatim>\<open>cleanup\<close> of a manager that never initialized, return
  without an exception and change neither the manager nor the world.
\<close>

theorem cleanup_never_raises:
  "fst (cleanup env m w) = Inr ()
   \<and> playwright (fst (snd (cleanup env m w))) = None
   \<and> browser (fst (snd (cleanup env m w))) = None
   \<and> page (fst (snd (cleanup env m w))) = None
   \<and> (\<forall>p. page m = Some p \<and> \<not> pg_closed w p
          \<longrightarrow> PageClose p \<in> set (calls (snd (snd (cleanup env m w)))))
   \<and> (\<forall>b. browser m = Some b \<and> br_connected w b
          \<longrightarrow> BrowserClose b \<in> set (calls (snd (snd (cleanup env m w)))))
   \<and> (\<forall>d. playwright m = Some d \<longrightarrow> PwStop d \<in> set (calls (snd (snd (cleanup env m w)))))
   \<and> cleanup env' (fst (snd (cleanup env m w))) (snd (snd (cleanup env m w)))
       = (Inr (), fst (snd (cleanup env m w)), snd (snd (cleanup env m w)))
   \<and> cleanup env (initial_manager h t vw vh) w = (Inr (), initial_manager h t vw vh, w)"
  by (simp add: cleanup_eq cleanup_browser_absent cleanup_browser_calls_page
      cleanup_browser_calls_engine cleanup_browser_calls_driver initial_manager_def)

text \<open>
  The ready state, with surroundings in which closing the page raises: the engine is
  closed and the driver stopped all the same, and nothing is raised.
\<close>

theorem cleanup_never_raises_witness:
  "fst (cleanup (env_failing (PageClose 2) (Exn PlaywrightError ''Protocol error''))
          ready_manager ready_world) = Inr ()
   \<and> page (fst (snd (cleanup (env_failing (PageClose 2) (Exn PlaywrightError ''Protocol error''))
          ready_manager ready_world))) = None
   \<and> PageClose 2 \<in> set (calls (snd (snd (cleanup
          (env_failing (PageClose 2) (Exn PlaywrightError ''Protocol error''))
          ready_manager ready_world))))
   \<and> BrowserClose 1 \<in> set (calls (snd (snd (cleanup
          (env_failing (PageClose 2) (Exn PlaywrightError ''Protocol error''))
          ready_manager ready_world))))
   \<and> PwStop 0 \<in> set (calls (snd (snd (cleanup
          (env_failing (PageClose 2) (Exn PlaywrightError ''Protocol error''))
          ready_manager ready_world))))"
proof -
  have slots: "page ready_manager = Some 2" "browser ready_manager = Some 1"
    "playwright ready_manager = Some 0"
    by (simp_all add: ready_manager_eq)
  have live: "\<not> pg_closed ready_world 2" "br_connected ready_world 1"
    by (simp_all add: ready_world_eq)
  from cleanup_never_raises
    [of "env_failing (PageClose 2) (Exn PlaywrightError ''Protocol error'')" ready_manager
      ready_world]
    slots live
  show ?thesis by simp
qed

section \<open>Readiness\<close>

text \<open>
  C7. \<^verbatim>\<open>is_initialized\<close> is true exactly when the engine slot holds a connected engine and
  the page slot holds a page that is not closed. With empty slots, as before the first
  acquisition and after \<^verbatim>\<open>cleanup\<close>, it is false.
\<close>

theorem is_initialized_iff:
  "(is_initialized m w \<longleftrightarrow>
      (\<exists>b p. browser m = Some b \<and> br_connected w b \<and> page m = Some p \<and> \<not> pg_closed w p))
   \<and> \<not> is_initialized (initial_manager h t vw vh) w
   \<and> \<not> is_initialized (fst (snd (cleanup env m w))) (snd (snd (cleanup env m w)))"
  by (auto simp: is_initialized_def initial_manager_def cleanup_eq split: option.splits)

text \<open>
  The ready state is ready; it is not once page 2 is closed or engine 1 is disconnected;
  a fresh manager is not.
\<close>

theorem is_initialized_iff_witness:
  "is_initialized ready_manager ready_world
   \<and> \<not> is_initialized ready_manager (page_closed 2 ready_world)
   \<and> \<not> is_initialized ready_manager (engine_disconnected 1 ready_world)
   \<and> \<not> is_initialized default_manager initial_world"
proof -
  have slots: "page ready_manager = Some 2" "browser ready_manager = Some 1"
    by (simp_all add: ready_manager_eq)
  have live: "\<not> pg_closed ready_world 2" "br_connected ready_world 1"
    by (simp_all add: ready_world_eq)
  have dead: "pg_closed (page_closed 2 ready_world) 2"
    "\<not> br_connected (engine_disconnected 1 ready_world) 1"
    by (simp_all add: page_closed_def engine_disconnected_def)
  have a: "is_initialized ready_manager ready_world"
    using is_initialized_iff [of ready_manager ready_world] slots live by simp
  have b: "\<not> is_initialized ready_manager (page_closed 2 ready_world)"
    using is_initialized_iff [of ready_manager "page_closed 2 ready_world"] slots dead by simp
  have c: "\<not> is_initialized ready_manager (engine_disconnected 1 ready_world)"
    using is_initialized_iff [of ready_manager "engine_disconnected 1 ready_world"] slots dead
    by simp
  have d: "\<not> is_initialized default_manager initial_world"
    using is_initialized_iff [THEN conjunct2, THEN conjunct1, of True 30000 1920 1080 initial_world]
    by (simp add: default_manager_def)
  from a b c d show ?thesis by simp
qed

section \<open>What a step leaves alone\<close>

lemma same_handles_refl [simp]: "same_handles w w"
  by (simp add: same_handles_def)

lemma same_handles_trans: "same_handles w w1 \<Longrightarrow> same_handles w1 w2 \<Longrightarrow> same_handles w w2"
  by (simp add: same_handles_def)

lemma page_goto_frame:
  "page_goto env p url wu t w = (r, w') \<Longrightarrow>
     same_handles w w' \<and> fs_dirs w' = fs_dirs w \<and> (\<exists>cs. calls w' = cs @ calls w)"
  by (auto simp: page_goto_def log_call_def same_handles_def Let_def split: option.splits if_splits)

lemma page_title_frame:
  "page_title env p w = (r, w') \<Longrightarrow>
     same_handles w w' \<and> fs_dirs w' = fs_dirs w \<and> (\<exists>cs. calls w' = cs @ calls w)"
  by (auto simp: page_title_def log_call_def same_handles_def Let_def split: option.splits if_splits)

lemma page_screenshot_frame:
  "page_screenshot env p f fp t w = (r, w') \<Longrightarrow>
     same_handles w w' \<and> fs_dirs w' = fs_dirs w \<and> (\<exists>cs. calls w' = cs @ calls w)"
  by (auto simp: page_screenshot_def log_call_def same_handles_def Let_def
      split: option.splits if_splits)

lemma st_size_frame: "st_size f w = (r, w') \<Longrightarrow> w' = w"
  by (auto simp: st_size_def split: option.splits)

lemma get_viewport_size_frame: "get_viewport_size m w = (r, m', w') \<Longrightarrow> m' = m \<and> w' = w"
  by (auto simp: get_viewport_size_def split: option.splits if_splits)

lemma init_body_frame:
  "init_body env m w = (x, m', w') \<Longrightarrow>
     fs_dirs w' = fs_dirs w \<and> cwd w' = cwd w \<and> (\<exists>cs. calls w' = cs @ calls w)"
  by (auto simp: init_body_def api_defs Let_def
      split: option.splits sum.splits prod.splits if_splits)

lemma ensure_browser_frame:
  "ensure_browser env m w = (r, m', w') \<Longrightarrow>
     fs_dirs w' = fs_dirs w \<and> cwd w' = cwd w \<and> (\<exists>cs. calls w' = cs @ calls w)"
  by (auto simp: ensure_browser_def split: if_splits prod.splits option.splits
      dest: init_body_frame)

lemma only_mkdirs_refl [simp]: "only_mkdirs w w"
  by (simp add: only_mkdirs_def)

lemma only_mkdirs_trans: "only_mkdirs w w1 \<Longrightarrow> only_mkdirs w1 w2 \<Longrightarrow> only_mkdirs w w2"
  by (auto simp: only_mkdirs_def same_handles_def)

lemma os_mkdir_frame:
  "os_mkdir env p w = (r, w') \<Longrightarrow> only_mkdirs w w' \<and> (\<exists>mk. calls w' = mk @ Mkdir p # calls w \<and> list_all is_mkdir mk)"
  by (auto simp: os_mkdir_def log_call_def only_mkdirs_def same_handles_def Let_def
      split: option.splits sum.splits if_splits)

lemma mkdir_single_frame:
  "mkdir_single env p w = (r, w') \<Longrightarrow> only_mkdirs w w'"
  by (auto simp: mkdir_single_def split: prod.splits sum.splits if_splits dest: os_mkdir_frame)

lemma only_mkdirs_first:
  "(\<exists>mk. calls w1 = mk @ c # calls w \<and> list_all is_mkdir mk) \<Longrightarrow> only_mkdirs w1 w2
     \<Longrightarrow> (\<exists>mk. calls w2 = mk @ c # calls w \<and> list_all is_mkdir mk)"
  by (auto simp: only_mkdirs_def)

lemma mkdir_frame:
  "mkdir env p w = (r, w') \<Longrightarrow>
     only_mkdirs w w' \<and> (\<exists>mk. calls w' = mk @ Mkdir p # calls w \<and> list_all is_mkdir mk)"
proof (induction env p w arbitrary: r w' rule: mkdir.induct)
  case (1 env p w)
  obtain x w1 where o: "os_mkdir env p w = (x, w1)" by (cases "os_mkdir env p w")
  note f = os_mkdir_frame [OF o]
  show ?case
  proof (cases x)
    case (Inr u)
    with o "1.prems" f show ?thesis by (simp add: mkdir.simps [of env p w])
  next
    case (Inl e)
    show ?thesis
    proof (cases "cls e = FileNotFoundError \<and> parent p \<noteq> p")
      case False
      with o Inl "1.prems" f show ?thesis
        by (auto simp: mkdir.simps [of env p w] split: if_splits)
    next
      case True
      obtain y w2 where r: "mkdir env (parent p) w1 = (y, w2)"
        by (cases "mkdir env (parent p) w1")
      from "1.IH" [OF o [symmetric] Inl _ _ r] True
      have f2: "only_mkdirs w1 w2" by simp
      from f f2 have a: "only_mkdirs w w2" by (blast intro: only_mkdirs_trans)
      from f f2 have b: "\<exists>mk. calls w2 = mk @ Mkdir p # calls w \<and> list_all is_mkdir mk"
        by (blast intro: only_mkdirs_first)
      show ?thesis
      proof (cases y)
        case (Inl e')
        with o \<open>x = Inl e\<close> True r "1.prems" a b show ?thesis
          by (simp add: mkdir.simps [of env p w])
      next
        case (Inr u)
        with o \<open>x = Inl e\<close> True r "1.prems" have s: "mkdir_single env p w2 = (r, w')"
          by (simp add: mkdir.simps [of env p w])
        from mkdir_single_frame [OF s] a b show ?thesis
          by (blast intro: only_mkdirs_trans only_mkdirs_first)
      qed
    qed
  qed
qed

lemma navigate_steps:
  assumes "navigate cfg env url wu m w = (res, m', w')"
  shows "(m' = m \<and> w' = w) \<or> (\<exists>r w1. ensure_browser env m w = (r, m', w1) \<and> same_handles w1 w')"
proof (cases "\<not> (prefix ''http://'' url \<or> prefix ''https://'' url)
              \<or> wu \<notin> set [''load'', ''domcontentloaded'', ''networkidle'']")
  case True
  with assms show ?thesis
    by (auto simp: navigate_def navigate_body_def split: if_splits)
next
  case False
  obtain r m1 w1 where g: "ensure_browser env m w = (r, m1, w1)"
    by (cases "ensure_browser env m w")
  obtain x where b: "navigate_body cfg env url wu m w = (x, m', w')"
    using assms by (auto simp: navigate_def split: sum.splits prod.splits if_splits)
  from False b g have "m' = m1 \<and> same_handles w1 w'"
    by (auto simp: navigate_body_def get_page_def split: sum.splits option.splits prod.splits
        dest!: page_goto_frame page_title_frame intro: same_handles_trans)
  with g show ?thesis by blast
qed

lemma screenshot_steps:
  assumes "screenshot cfg env f fp m w = (res, m', w')"
  shows "(m' = m \<and> same_handles w w')
     \<or> (\<exists>r w0 w1. same_handles w w0 \<and> ensure_browser env m w0 = (r, m', w1) \<and> same_handles w1 w')"
proof (cases "f = [] \<or> strip f = [] \<or> lower (path_suffix (Path f)) \<notin> set valid_extensions")
  case True
  with assms show ?thesis
    by (auto simp: screenshot_def screenshot_body_def Let_def split: if_splits)
next
  case False
  obtain x where b: "screenshot_body cfg env f fp m w = (x, m', w')"
    using assms by (auto simp: screenshot_def split: sum.splits prod.splits if_splits)
  obtain u w0 where mk: "mkdir env (parent (Path f)) w = (u, w0)"
    by (cases "mkdir env (parent (Path f)) w")
  from mkdir_frame [OF mk] have h0: "same_handles w w0" by (simp add: only_mkdirs_def)
  obtain r m1 w1 where g: "ensure_browser env m w0 = (r, m1, w1)"
    by (cases "ensure_browser env m w0")
  from False b mk g have "(m' = m \<and> w' = w0) \<or> (m' = m1 \<and> same_handles w1 w')"
    by (auto simp: screenshot_body_def get_page_def Let_def
        split: sum.splits option.splits prod.splits
        dest!: page_screenshot_frame st_size_frame get_viewport_size_frame)
  with h0 g show ?thesis by blast
qed

section \<open>Invariants of the reachable states\<close>







lemma init_body_viewport_known:
  "viewport_known m w \<Longrightarrow> init_body env m w = (x, m', w') \<Longrightarrow> viewport_known m' w'"
  by (auto simp: viewport_known_def init_body_def api_defs Let_def
      split: option.splits sum.splits prod.splits if_splits)

lemma ensure_browser_viewport_known:
  "viewport_known m w \<Longrightarrow> ensure_browser env m w = (r, m', w') \<Longrightarrow> viewport_known m' w'"
  by (auto simp: ensure_browser_def split: if_splits prod.splits option.splits
      dest: init_body_viewport_known)

lemma viewport_known_same:
  "viewport_known m w \<Longrightarrow> same_handles w w' \<Longrightarrow> viewport_known m w'"
  by (simp add: viewport_known_def same_handles_def split: option.splits)

lemma reachable_viewport_known: "reachable m w \<Longrightarrow> viewport_known m w"
proof (induction rule: reachable.induct)
  case (start h t vw vh ds fs c)
  then show ?case by (simp add: viewport_known_def initial_manager_def)
next
  case (ensure m w env r m' w')
  then show ?case by (blast intro: ensure_browser_viewport_known)
next
  case (restart m w env r m' w')
  have "viewport_known (m\<lparr>browser := None, page := None\<rparr>) (snd (cleanup_browser env m w))"
    by (simp add: viewport_known_def)
  with restart.hyps(2) show ?case
    by (auto simp: restart_eq intro: ensure_browser_viewport_known)
next
  case (cleanup m w env u m' w')
  then show ?case by (auto simp: cleanup_eq viewport_known_def)
next
  case (navigate m w cfg env url wait_until res m' w')
  from navigate_steps [OF navigate.hyps(2)] navigate.IH show ?case
    by (blast intro: ensure_browser_viewport_known viewport_known_same)
next
  case (screenshot m w cfg env path_arg full_page res m' w')
  from screenshot_steps [OF screenshot.hyps(2)] screenshot.IH show ?case
    by (blast intro: ensure_browser_viewport_known viewport_known_same)
next
  case (closed m w p)
  then show ?case by (simp add: viewport_known_def page_closed_def split: option.splits)
next
  case (disconnected m w b)
  then show ?case by (simp add: viewport_known_def engine_disconnected_def split: option.splits)
next
  case (resized m w p v)
  then show ?case by (simp add: viewport_known_def viewport_changed_def split: option.splits)
qed







lemma reachable_ready: "reachable ready_manager ready_world"
proof -
  have "initial_world\<lparr>fs_dirs := {}, fs_files := (\<lambda>_. None), cwd := []\<rparr> = initial_world"
    by (simp add: initial_world_def)
  with reachable.start [where h = True and t = 30000 and vw = 1920 and vh = 1080
      and ds = "{}" and fs = "\<lambda>_. None" and c = "[]"]
  have "reachable default_manager initial_world"
    by (simp add: default_manager_def)
  moreover have "ensure_browser env_ok default_manager initial_world
                   = (fst (ensure_browser env_ok default_manager initial_world),
                      ready_manager, ready_world)"
    by (simp add: ready_manager_def ready_world_def)
  ultimately show ?thesis by (rule reachable.ensure)
qed



section \<open>The viewport\<close>

text \<open>
  C8. In every reachable state \<^verbatim>\<open>get_viewport_size\<close> returns a value, raises nothing and
  leaves the manager and the world as they are. When the manager is ready the value is the
  viewport of the page in the slot; otherwise it is the configured width and height.
\<close>

theorem get_viewport_size_total:
  assumes "reachable m w"
  shows "(\<exists>v. get_viewport_size m w = (Inr v, m, w))
    \<and> (is_initialized m w \<longrightarrow>
         (\<exists>p v. page m = Some p \<and> pg_viewport w p = Some v
                \<and> get_viewport_size m w = (Inr v, m, w)))
    \<and> (\<not> is_initialized m w \<longrightarrow>
         get_viewport_size m w = (Inr (viewport_width m, viewport_height m), m, w))"
  using reachable_viewport_known [OF assms]
  by (auto simp: get_viewport_size_def viewport_known_def is_initialized_def
      split: option.splits)

text \<open>
  The ready state gives the viewport of page 2, which is the configured one; the same
  state with the page closed gives the configured default.
\<close>

theorem get_viewport_size_total_witness:
  "get_viewport_size ready_manager ready_world = (Inr (1920, 1080), ready_manager, ready_world)
   \<and> get_viewport_size ready_manager (page_closed 2 ready_world)
       = (Inr (1920, 1080), ready_manager, page_closed 2 ready_world)"
proof -
  have slots: "page ready_manager = Some 2" "browser ready_manager = Some 1"
    "viewport_width ready_manager = 1920" "viewport_height ready_manager = 1080"
    by (simp_all add: ready_manager_eq default_manager_def initial_manager_def)
  have live: "\<not> pg_closed ready_world 2" "br_connected ready_world 1"
    "pg_viewport ready_world 2 = Some (1920, 1080)"
    by (simp_all add: ready_world_eq)
  have ready: "is_initialized ready_manager ready_world"
    using slots live by (simp add: is_initialized_def)
  have dead: "\<not> is_initialized ready_manager (page_closed 2 ready_world)"
    using slots by (simp add: is_initialized_def page_closed_def)
  have a: "get_viewport_size ready_manager ready_world
             = (Inr (1920, 1080), ready_manager, ready_world)"
    using get_viewport_size_total [OF reachable_ready] ready slots live by auto
  have b: "get_viewport_size ready_manager (page_closed 2 ready_world)
             = (Inr (1920, 1080), ready_manager, page_closed 2 ready_world)"
    using get_viewport_size_total [OF reachable.closed [OF reachable_ready, of 2]] dead slots
    by simp
  from a b show ?thesis by simp
qed

section \<open>Properties of the tools\<close>

text \<open>
  C9. For a URL that starts with neither \<^verbatim>\<open>http://\<close> nor \<^verbatim>\<open>https://\<close>, \<^verbatim>\<open>navigate\<close> returns a
  response with \<^verbatim>\<open>success\<close> false, \<^verbatim>\<open>error_type\<close> \<^verbatim>\<open>ValidationError\<close>, a suggestion and the
  URL, and leaves the manager and the world as they are: no call is made into the
  library and nothing is initialized.
\<close>

theorem navigate_rejects_url_without_scheme:
  assumes "\<not> prefix ''http://'' url" and "\<not> prefix ''https://'' url"
  shows "fst (navigate cfg env url wait_until m w) ''success'' = Some (JBool False)
    \<and> fst (navigate cfg env url wait_until m w) ''error_type'' = Some (JStr ''ValidationError'')
    \<and> fst (navigate cfg env url wait_until m w) ''suggestion''
         = Some (JStr ''Add http:// or https:// to the URL'')
    \<and> fst (navigate cfg env url wait_until m w) ''url'' = Some (JStr url)
    \<and> snd (navigate cfg env url wait_until m w) = (m, w)
    \<and> calls (snd (snd (navigate cfg env url wait_until m w))) = calls w"
  using assms
  by (simp add: navigate_def navigate_body_def create_error_response_def map_add_def)

text \<open>The URL \<^verbatim>\<open>example.com\<close> on a fresh manager: rejected, and no call is logged.\<close>

theorem navigate_rejects_url_without_scheme_witness:
  "fst (navigate default_config env_ok ''example.com'' ''load'' default_manager initial_world)
      ''success'' = Some (JBool False)
   \<and> fst (navigate default_config env_ok ''example.com'' ''load'' default_manager initial_world)
      ''error_type'' = Some (JStr ''ValidationError'')
   \<and> snd (navigate default_config env_ok ''example.com'' ''load'' default_manager initial_world)
      = (default_manager, initial_world)
   \<and> calls (snd (snd (navigate default_config env_ok ''example.com'' ''load'' default_manager
        initial_world))) = []"
proof -
  have a: "\<not> prefix ''http://'' ''example.com''" "\<not> prefix ''https://'' ''example.com''"
    by simp_all
  from navigate_rejects_url_without_scheme
    [OF a, of default_config env_ok "''load''" default_manager initial_world]
  show ?thesis by (simp add: initial_world_def)
qed

text \<open>Directories made by \<^verbatim>\<open>mkdir\<close>.\<close>

lemma walk_mono:
  "fs_dirs w \<subseteq> fs_dirs w' \<Longrightarrow> walk w cur xs = Inr d \<Longrightarrow> walk w' cur xs = Inr d"
  by (induction xs arbitrary: cur) (auto simp: dir_exists_def split: if_splits)

lemma walk_append:
  "walk w cur (xs @ ys) = (case walk w cur xs of Inl e \<Rightarrow> Inl e | Inr d \<Rightarrow> walk w d ys)"
  by (induction xs arbitrary: cur) auto

lemma walk_dirs_only:
  "fs_dirs w' = fs_dirs w \<Longrightarrow> (walk w' cur xs = Inr d) = (walk w cur xs = Inr d)"
  by (induction xs arbitrary: cur) (auto simp: dir_exists_def)

lemma is_dir_iff: "is_dir w p \<longleftrightarrow> (\<exists>d. walk w (start_dir w p) (snd p) = Inr d)"
  by (simp add: is_dir_def split: sum.splits)

lemma is_dir_cong:
  "fs_dirs w' = fs_dirs w \<Longrightarrow> cwd w' = cwd w \<Longrightarrow> is_dir w' p = is_dir w p"
  using walk_dirs_only [of w' w] by (simp add: is_dir_iff start_dir_def)

lemma os_mkdir_ok_is_dir:
  assumes "os_mkdir env p w = (Inr u, w')"
  shows "is_dir w' p"
proof -
  let ?w1 = "log_call (Mkdir p) w"
  from assms have ne: "snd p \<noteq> []"
    by (auto simp: os_mkdir_def Let_def split: if_splits)
  with assms obtain d where
    wk: "walk ?w1 (start_dir ?w1 p) (butlast (snd p)) = Inr d"
    and l: "last (snd p) \<noteq> ''..''"
    and w': "w' = ?w1\<lparr>fs_dirs := insert (d @ [last (snd p)]) (fs_dirs ?w1)\<rparr>"
    by (auto simp: os_mkdir_def Let_def split: if_splits sum.splits option.splits)
  have s: "start_dir w' p = start_dir ?w1 p" by (simp add: w' start_dir_def)
  have "walk w' (start_dir ?w1 p) (butlast (snd p)) = Inr d"
    by (rule walk_mono [OF _ wk]) (auto simp: w')
  with s have a: "walk w' (start_dir w' p) (butlast (snd p)) = Inr d" by simp
  have b: "walk w' d [last (snd p)] = Inr (d @ [last (snd p)])"
    using l by (simp add: dir_exists_def w')
  from a b have "walk w' (start_dir w' p) (butlast (snd p) @ [last (snd p)])
                   = Inr (d @ [last (snd p)])"
    by (simp only: walk_append sum.case)
  with ne show ?thesis by (simp add: is_dir_iff)
qed

lemma mkdir_single_ok_is_dir: "mkdir_single env p w = (Inr u, w') \<Longrightarrow> is_dir w' p"
  by (auto simp: mkdir_single_def split: prod.splits sum.splits if_splits
      dest: os_mkdir_ok_is_dir)

lemma mkdir_ok_is_dir:
  assumes "mkdir env p w = (Inr u, w')"
  shows "is_dir w' p"
proof -
  obtain x w1 where o: "os_mkdir env p w = (x, w1)" by (cases "os_mkdir env p w")
  show ?thesis
  proof (cases x)
    case (Inr v)
    with o assms have "os_mkdir env p w = (Inr v, w')"
      by (simp add: mkdir.simps [of env p w])
    then show ?thesis by (rule os_mkdir_ok_is_dir)
  next
    case (Inl e)
    show ?thesis
    proof (cases "cls e = FileNotFoundError")
      case False
      with o Inl assms show ?thesis
        by (simp add: mkdir.simps [of env p w] split: if_splits)
    next
      case nf: True
      show ?thesis
      proof (cases "parent p = p")
        case True
        with o Inl nf assms show ?thesis by (simp add: mkdir.simps [of env p w])
      next
        case False
        obtain y w2 where r: "mkdir env (parent p) w1 = (y, w2)"
          by (cases "mkdir env (parent p) w1")
        with o Inl nf False assms have "mkdir_single env p w2 = (Inr u, w')"
          by (cases y) (simp_all add: mkdir.simps [of env p w])
        then show ?thesis by (rule mkdir_single_ok_is_dir)
      qed
    qed
  qed
qed

lemma screenshot_body_invalid:
  assumes "f = [] \<or> strip f = [] \<or> lower (path_suffix (Path f)) \<notin> set valid_extensions"
  shows "\<exists>r. screenshot_body cfg env f fp m w = (Inr r, m, w)
           \<and> r ''error_type'' = Some (JStr ''ValidationError'')
           \<and> r ''success'' = Some (JBool False)"
  using assms
  by (auto simp: screenshot_body_def Let_def create_error_response_def map_add_def)

lemma screenshot_body_mkdir_raises:
  assumes "\<not> (f = [] \<or> strip f = [] \<or> lower (path_suffix (Path f)) \<notin> set valid_extensions)"
    and "mkdir env (parent (Path f)) w = (Inl e, w0)"
  shows "screenshot_body cfg env f fp m w = (Inl e, m, w0)"
  using assms by (simp add: screenshot_body_def Let_def)

lemma screenshot_body_mkdir_ok:
  assumes "\<not> (f = [] \<or> strip f = [] \<or> lower (path_suffix (Path f)) \<notin> set valid_extensions)"
    and mk: "mkdir env (parent (Path f)) w = (Inr u, w0)"
    and b: "screenshot_body cfg env f fp m w = (x, m', w')"
  shows "fs_dirs w' = fs_dirs w0 \<and> cwd w' = cwd w0 \<and> (\<exists>cs. calls w' = cs @ calls w0)"
proof -
  obtain r m1 w1 where g: "ensure_browser env m w0 = (r, m1, w1)"
    by (cases "ensure_browser env m w0")
  from ensure_browser_frame [OF g] obtain cs1 where
    f1: "fs_dirs w1 = fs_dirs w0" "cwd w1 = cwd w0" "calls w1 = cs1 @ calls w0" by blast
  from assms(1) mk g b
  have "w' = w1 \<or> (same_handles w1 w' \<and> fs_dirs w' = fs_dirs w1 \<and> (\<exists>cs. calls w' = cs @ calls w1))"
    by (auto simp: screenshot_body_def get_page_def Let_def
        split: sum.splits option.splits prod.splits
        dest!: page_screenshot_frame st_size_frame get_viewport_size_frame)
  then have "fs_dirs w' = fs_dirs w1 \<and> cwd w' = cwd w1 \<and> (\<exists>cs. calls w' = cs @ calls w1)"
    by (auto simp: same_handles_def)
  with f1 show ?thesis by auto
qed

lemma screenshot_snd:
  "snd (screenshot cfg env f fp m w) = snd (screenshot_body cfg env f fp m w)"
  by (simp add: screenshot_def split: prod.splits sum.splits)

lemma screenshot_raise_response:
  "screenshot_body cfg env f fp m w = (Inl e, m', w')
     \<Longrightarrow> fst (screenshot cfg env f fp m w) ''success'' = Some (JBool False)"
  by (simp add: screenshot_def create_error_response_def map_add_def split: prod.splits)

text \<open>
  C10, as the code has it. On a path that fails validation (empty, blank, or an extension
  other than \<^verbatim>\<open>.png\<close>, \<^verbatim>\<open>.jpg\<close>, \<^verbatim>\<open>.jpeg\<close>) \<^verbatim>\<open>screenshot\<close> returns a \<^verbatim>\<open>ValidationError\<close>
  response and changes nothing: no directory is created, no file is written, no call is
  made. On a path that passes validation the first calls are the \<^verbatim>\<open>os.mkdir\<close> calls of
  \<^verbatim>\<open>mkdir(parents=True, exist_ok=True)\<close> on the parent of the path as written, before any
  call into the library. When that \<^verbatim>\<open>mkdir\<close> returns, the parent is a directory afterwards
  and the directories are those the \<^verbatim>\<open>mkdir\<close> left, whatever the launch and the
  screenshot do. When it raises, the response is a failure and nothing is called after
  it: the manager is unchanged and the world is the one the \<^verbatim>\<open>mkdir\<close> left.
\<close>

theorem screenshot_creates_parent_first:
  "((f = [] \<or> strip f = [] \<or> lower (path_suffix (Path f)) \<notin> set valid_extensions) \<longrightarrow>
       fst (screenshot cfg env f fp m w) ''success'' = Some (JBool False)
       \<and> fst (screenshot cfg env f fp m w) ''error_type'' = Some (JStr ''ValidationError'')
       \<and> snd (screenshot cfg env f fp m w) = (m, w))
   \<and> (\<not> (f = [] \<or> strip f = [] \<or> lower (path_suffix (Path f)) \<notin> set valid_extensions)
       \<and> mkdir env (parent (Path f)) w = (Inr (), w0) \<longrightarrow>
         is_dir (snd (snd (screenshot cfg env f fp m w))) (parent (Path f))
         \<and> fs_dirs (snd (snd (screenshot cfg env f fp m w))) = fs_dirs w0
         \<and> (\<exists>cs mk. calls (snd (snd (screenshot cfg env f fp m w)))
                       = cs @ mk @ [Mkdir (parent (Path f))] @ calls w
                     \<and> calls w0 = mk @ [Mkdir (parent (Path f))] @ calls w
                     \<and> list_all is_mkdir mk))
   \<and> (\<not> (f = [] \<or> strip f = [] \<or> lower (path_suffix (Path f)) \<notin> set valid_extensions)
       \<and> mkdir env (parent (Path f)) w = (Inl e, w0) \<longrightarrow>
         snd (screenshot cfg env f fp m w) = (m, w0)
         \<and> fst (screenshot cfg env f fp m w) ''success'' = Some (JBool False)
         \<and> (\<exists>mk. calls w0 = mk @ [Mkdir (parent (Path f))] @ calls w \<and> list_all is_mkdir mk))"
proof -
  let ?invalid = "f = [] \<or> strip f = [] \<or> lower (path_suffix (Path f)) \<notin> set valid_extensions"
  let ?R = "screenshot cfg env f fp m w"
  let ?p = "parent (Path f)"
  have 1: "?invalid \<longrightarrow>
       fst ?R ''success'' = Some (JBool False)
       \<and> fst ?R ''error_type'' = Some (JStr ''ValidationError'')
       \<and> snd ?R = (m, w)"
  proof
    assume ?invalid
    from screenshot_body_invalid [OF this, of cfg env fp m w]
    show "fst ?R ''success'' = Some (JBool False)
       \<and> fst ?R ''error_type'' = Some (JStr ''ValidationError'')
       \<and> snd ?R = (m, w)"
      by (auto simp: screenshot_def)
  qed
  have 2: "\<not> ?invalid \<and> mkdir env ?p w = (Inr (), w0) \<longrightarrow>
         is_dir (snd (snd ?R)) ?p
         \<and> fs_dirs (snd (snd ?R)) = fs_dirs w0
         \<and> (\<exists>cs mk. calls (snd (snd ?R)) = cs @ mk @ [Mkdir ?p] @ calls w
                     \<and> calls w0 = mk @ [Mkdir ?p] @ calls w
                     \<and> list_all is_mkdir mk)"
  proof
    assume a: "\<not> ?invalid \<and> mkdir env ?p w = (Inr (), w0)"
    then have v: "\<not> ?invalid" and mk: "mkdir env ?p w = (Inr (), w0)" by simp_all
    obtain x m' w' where b: "screenshot_body cfg env f fp m w = (x, m', w')"
      by (cases "screenshot_body cfg env f fp m w")
    then have s: "snd ?R = (m', w')" by (simp add: screenshot_snd)
    from screenshot_body_mkdir_ok [OF v mk b] obtain cs where
      f: "fs_dirs w' = fs_dirs w0" "cwd w' = cwd w0" "calls w' = cs @ calls w0" by blast
    from mkdir_frame [OF mk] obtain mk' where
      c: "calls w0 = mk' @ Mkdir ?p # calls w" "list_all is_mkdir mk'" by blast
    from mkdir_ok_is_dir [OF mk] have "is_dir w0 ?p" .
    with f is_dir_cong [of w' w0 ?p] have d: "is_dir w' ?p" by simp
    from f c have "calls w' = cs @ mk' @ [Mkdir ?p] @ calls w
                     \<and> calls w0 = mk' @ [Mkdir ?p] @ calls w \<and> list_all is_mkdir mk'"
      by simp
    then have "\<exists>cs mk. calls w' = cs @ mk @ [Mkdir ?p] @ calls w
                     \<and> calls w0 = mk @ [Mkdir ?p] @ calls w \<and> list_all is_mkdir mk"
      by blast
    with d f s show "is_dir (snd (snd ?R)) ?p
         \<and> fs_dirs (snd (snd ?R)) = fs_dirs w0
         \<and> (\<exists>cs mk. calls (snd (snd ?R)) = cs @ mk @ [Mkdir ?p] @ calls w
                     \<and> calls w0 = mk @ [Mkdir ?p] @ calls w
                     \<and> list_all is_mkdir mk)"
      by simp
  qed
  have 3: "\<not> ?invalid \<and> mkdir env ?p w = (Inl e, w0) \<longrightarrow>
         snd ?R = (m, w0)
         \<and> fst ?R ''success'' = Some (JBool False)
         \<and> (\<exists>mk. calls w0 = mk @ [Mkdir ?p] @ calls w \<and> list_all is_mkdir mk)"
  proof
    assume a: "\<not> ?invalid \<and> mkdir env ?p w = (Inl e, w0)"
    then have v: "\<not> ?invalid" and mk: "mkdir env ?p w = (Inl e, w0)" by simp_all
    note b = screenshot_body_mkdir_raises [OF v mk, of cfg fp m]
    from mkdir_frame [OF mk] have "\<exists>mk. calls w0 = mk @ [Mkdir ?p] @ calls w \<and> list_all is_mkdir mk"
      by simp
    with b screenshot_raise_response [OF b]
    show "snd ?R = (m, w0)
         \<and> fst ?R ''success'' = Some (JBool False)
         \<and> (\<exists>mk. calls w0 = mk @ [Mkdir ?p] @ calls w \<and> list_all is_mkdir mk)"
      by (simp add: screenshot_snd)
  qed
  show ?thesis by (intro conjI) (rule 1, rule 2, rule 3)
qed

text \<open>
  A cold manager, no directory but the root, and a launch that raises: \<^verbatim>\<open>/srv/shots\<close> is
  a directory afterwards. With the extension \<^verbatim>\<open>.txt\<close> nothing changes.
\<close>

theorem screenshot_creates_parent_first_witness:
  "is_dir (snd (snd (screenshot default_config
       (env_failing (Launch 0 True 30000) (Exn PlaywrightError ''Executable not found''))
       ''/srv/shots/a.png'' False default_manager initial_world))) (True, [''srv'', ''shots''])
   \<and> snd (screenshot default_config env_ok ''/srv/shots/a.txt'' False default_manager
        initial_world) = (default_manager, initial_world)"
proof -
  let ?env = "env_failing (Launch 0 True 30000) (Exn PlaywrightError ''Executable not found'')"
  define w0 where "w0 = snd (mkdir ?env (True, [''srv'', ''shots'']) initial_world)"
  have mk: "mkdir ?env (parent (Path ''/srv/shots/a.png'')) initial_world = (Inr (), w0)"
    using mkdir_eval_ok by (simp add: w0_def path_evals(3) prod_eq_iff)
  have valid: "\<not> (''/srv/shots/a.png'' = [] \<or> strip ''/srv/shots/a.png'' = []
      \<or> lower (path_suffix (Path ''/srv/shots/a.png'')) \<notin> set valid_extensions)"
    using path_evals(1,2) by (simp add: valid_extensions_def)
  have invalid: "lower (path_suffix (Path ''/srv/shots/a.txt'')) \<notin> set valid_extensions"
    using path_evals(4) by (simp add: valid_extensions_def)
  have a: "is_dir (snd (snd (screenshot default_config ?env ''/srv/shots/a.png'' False
             default_manager initial_world))) (parent (Path ''/srv/shots/a.png''))"
    using screenshot_creates_parent_first
      [where f = "''/srv/shots/a.png''" and cfg = default_config and env = ?env and fp = False
        and m = default_manager and w = initial_world and ?w0.0 = w0]
      valid mk
    by blast
  have b: "snd (screenshot default_config env_ok ''/srv/shots/a.txt'' False default_manager
             initial_world) = (default_manager, initial_world)"
    using screenshot_creates_parent_first
      [where f = "''/srv/shots/a.txt''" and cfg = default_config and env = env_ok and fp = False
        and m = default_manager and w = initial_world]
      invalid
    by blast
  from a b show ?thesis by (simp add: path_evals(3))
qed

text \<open>
  C10 as stated fails: the path \<^verbatim>\<open>/srv/shots/a.png\<close> passes validation, no directory but
  the root exists, and the \<^verbatim>\<open>os.mkdir\<close> of \<^verbatim>\<open>/srv/shots\<close> raises \<^verbatim>\<open>PermissionError\<close>. The
  parent \<^verbatim>\<open>/srv/shots\<close> is not a directory afterwards, and the response is a
  \<^verbatim>\<open>FileSystemError\<close>.
\<close>

theorem screenshot_parent_missing_when_mkdir_raises:
  "strip ''/srv/shots/a.png'' \<noteq> []
   \<and> lower (path_suffix (Path ''/srv/shots/a.png'')) \<in> set valid_extensions
   \<and> parent (Path ''/srv/shots/a.png'') = (True, [''srv'', ''shots''])
   \<and> \<not> is_dir (snd (snd (screenshot default_config
         (env_failing (Mkdir (True, [''srv'', ''shots'']))
            (Exn PermissionError ''[Errno 13] Permission denied''))
         ''/srv/shots/a.png'' False default_manager initial_world))) (True, [''srv'', ''shots''])
   \<and> [''srv'', ''shots''] \<notin> fs_dirs (snd (snd (screenshot default_config
         (env_failing (Mkdir (True, [''srv'', ''shots'']))
            (Exn PermissionError ''[Errno 13] Permission denied''))
         ''/srv/shots/a.png'' False default_manager initial_world)))
   \<and> fst (screenshot default_config
         (env_failing (Mkdir (True, [''srv'', ''shots'']))
            (Exn PermissionError ''[Errno 13] Permission denied''))
         ''/srv/shots/a.png'' False default_manager initial_world) ''error_type''
       = Some (JStr ''FileSystemError'')"
proof -
  let ?e = "Exn PermissionError ''[Errno 13] Permission denied''"
  let ?env = "env_failing (Mkdir (True, [''srv'', ''shots''])) ?e"
  let ?w0 = "initial_world\<lparr>fs_dirs := {[''srv'']},
        calls := [Mkdir (True, [''srv'', ''shots'']), Mkdir (True, [''srv'']),
                  Mkdir (True, [''srv'', ''shots''])]\<rparr>"
  have valid: "\<not> (''/srv/shots/a.png'' = [] \<or> strip ''/srv/shots/a.png'' = []
      \<or> lower (path_suffix (Path ''/srv/shots/a.png'')) \<notin> set valid_extensions)"
    using path_evals(1,2) by (simp add: valid_extensions_def)
  have mk: "mkdir ?env (parent (Path ''/srv/shots/a.png'')) initial_world = (Inl ?e, ?w0)"
    using mkdir_eval_denied by (simp add: path_evals(3))
  note body = screenshot_body_mkdir_raises [OF valid mk, of default_config False default_manager]
  have r: "screenshot default_config ?env ''/srv/shots/a.png'' False default_manager initial_world
             = (create_error_response ''FileSystemError''
                  (''Permission denied: '' @ ''[Errno 13] Permission denied'')
                  ''Check file/directory write permissions''
                  [''path'' \<mapsto> JStr ''/srv/shots/a.png''], default_manager, ?w0)"
    by (simp add: screenshot_def body isinstance_def)
  have nd: "\<not> is_dir ?w0 (True, [''srv'', ''shots''])"
    by (simp add: is_dir_def start_dir_def dir_exists_def initial_world_def)
  have nm: "[''srv'', ''shots''] \<notin> fs_dirs ?w0" by simp
  from r nd nm path_evals show ?thesis
    by (simp add: create_error_response_def map_add_def valid_extensions_def)
qed

end
